theory Spec2Isabelle
  imports Main "HOL-Library.Log_Nat"
begin

section \<open>The JavaScript values the interpreter computes with\<close>

text \<open>
  The interpreter is TypeScript; its numbers are IEEE-754 doubles and its strings are
  sequences of UTF-16 code units. A string is modelled as the list of its code units
  (\<open>js ''abc''\<close> embeds an ASCII literal). A number is one of the three special
  values or a finite double, given by its exact rational value; the two zeros are one
  value (the interpreter never tells them apart: it tests \<open>=== 0\<close> before it divides).
\<close>

type_synonym jsstring = "nat list"

definition js :: "string \<Rightarrow> jsstring" where
  "js s = map of_char s"

datatype jsnum = Fin rat | PInf | NInf | NaN

subsection \<open>Rounding to the nearest double\<close>

definition pow2 :: "int \<Rightarrow> rat" where
  "pow2 k = (if 0 \<le> k then 2 ^ nat k else 1 / 2 ^ nat (- k))"

text \<open>\<open>ilog2 a\<close> is the exponent \<open>e\<close> with \<open>2^e \<le> a < 2^(e+1)\<close>, for \<open>a > 0\<close>.\<close>

definition ilog2 :: "rat \<Rightarrow> int" where
  "ilog2 a = (let (p, q) = quotient_of a; d = bitlen p - bitlen q
              in if pow2 d \<le> a then d else d - 1)"

definition roundHalfEven :: "rat \<Rightarrow> int" where
  "roundHalfEven m = (let f = \<lfloor>m\<rfloor>; r = m - of_int f
                      in if r < 1 / 2 then f else if 1 / 2 < r then f + 1
                         else if even f then f else f + 1)"

text \<open>
  \<open>toDouble q\<close> is the double nearest to the real number \<open>q\<close>: \<open>m * 2^(e-52)\<close> with
  \<open>m\<close> the significand rounded to an integer of at most 53 bits (ties to even), \<open>e\<close> the
  exponent (at least \<open>-1022\<close>: below it the doubles are subnormal), and an infinity when
  the rounded value reaches \<open>2^1024\<close>, that is \<open>e \<ge> 1024\<close>, or \<open>e = 1023\<close> and \<open>m = 2^53\<close>.
\<close>

definition toDouble :: "rat \<Rightarrow> jsnum" where
  "toDouble q =
     (if q = 0 then Fin 0
      else let a = \<bar>q\<bar>;
               e = max (ilog2 a) (- 1022);
               u = pow2 (e - 52);
               m = roundHalfEven (a / u)
           in if 1024 \<le> e \<or> (e = 1023 \<and> m = 9007199254740992)
              then (if 0 < q then PInf else NInf)
              else Fin (if 0 < q then of_int m * u else - (of_int m * u)))"

subsection \<open>Arithmetic and comparison of numbers\<close>

fun isNaN :: "jsnum \<Rightarrow> bool" where
  "isNaN NaN = True"
| "isNaN _ = False"

fun isFiniteNum :: "jsnum \<Rightarrow> bool" where
  "isFiniteNum (Fin _) = True"
| "isFiniteNum _ = False"

fun isInteger :: "jsnum \<Rightarrow> bool" where
  "isInteger (Fin q) = (of_int \<lfloor>q\<rfloor> = q)"
| "isInteger _ = False"

fun numNeg :: "jsnum \<Rightarrow> jsnum" where
  "numNeg (Fin q) = Fin (- q)"
| "numNeg PInf = NInf"
| "numNeg NInf = PInf"
| "numNeg NaN = NaN"

fun numAdd :: "jsnum \<Rightarrow> jsnum \<Rightarrow> jsnum" where
  "numAdd NaN _ = NaN"
| "numAdd _ NaN = NaN"
| "numAdd PInf NInf = NaN"
| "numAdd NInf PInf = NaN"
| "numAdd PInf _ = PInf"
| "numAdd _ PInf = PInf"
| "numAdd NInf _ = NInf"
| "numAdd _ NInf = NInf"
| "numAdd (Fin a) (Fin b) = toDouble (a + b)"

definition numSub :: "jsnum \<Rightarrow> jsnum \<Rightarrow> jsnum" where
  "numSub a b = numAdd a (numNeg b)"

text \<open>The sign of a number: \<open>1\<close>, \<open>-1\<close> or \<open>0\<close> (NaN has none and is handled before).\<close>

fun numSign :: "jsnum \<Rightarrow> int" where
  "numSign (Fin q) = (if 0 < q then 1 else if q < 0 then - 1 else 0)"
| "numSign PInf = 1"
| "numSign NInf = - 1"
| "numSign NaN = 0"

definition signedInf :: "int \<Rightarrow> jsnum" where
  "signedInf s = (if s = 0 then NaN else if 0 < s then PInf else NInf)"

fun numMul :: "jsnum \<Rightarrow> jsnum \<Rightarrow> jsnum" where
  "numMul NaN _ = NaN"
| "numMul _ NaN = NaN"
| "numMul (Fin a) (Fin b) = toDouble (a * b)"
| "numMul a b = signedInf (numSign a * numSign b)"

text \<open>
  Division. A zero divisor gives an infinity (or NaN for \<open>0/0\<close>); as the two zeros are
  one value here, the sign of that infinity is taken from the dividend alone. The
  interpreter never divides by zero: it tests the divisor first.
\<close>

fun numDiv :: "jsnum \<Rightarrow> jsnum \<Rightarrow> jsnum" where
  "numDiv NaN _ = NaN"
| "numDiv _ NaN = NaN"
| "numDiv (Fin a) (Fin b) = (if b = 0 then signedInf (numSign (Fin a)) else toDouble (a / b))"
| "numDiv (Fin a) _ = Fin 0"
| "numDiv a (Fin b) = signedInf (numSign a * (if b < 0 then - 1 else 1))"
| "numDiv _ _ = NaN"

text \<open>The remainder \<open>%\<close>: truncated towards zero, with the sign of the dividend; exact.\<close>

fun numMod :: "jsnum \<Rightarrow> jsnum \<Rightarrow> jsnum" where
  "numMod NaN _ = NaN"
| "numMod _ NaN = NaN"
| "numMod PInf _ = NaN"
| "numMod NInf _ = NaN"
| "numMod (Fin a) (Fin b) =
     (if b = 0 then NaN
      else let t = a / b; n = (if 0 \<le> t then \<lfloor>t\<rfloor> else \<lceil>t\<rceil>) in Fin (a - of_int n * b))"
| "numMod (Fin a) _ = Fin a"

text \<open>Strict equality and the order on numbers: every comparison with NaN is false.\<close>

fun numEq :: "jsnum \<Rightarrow> jsnum \<Rightarrow> bool" where
  "numEq NaN _ = False"
| "numEq _ NaN = False"
| "numEq a b = (a = b)"

fun numLess :: "jsnum \<Rightarrow> jsnum \<Rightarrow> bool" where
  "numLess NaN _ = False"
| "numLess _ NaN = False"
| "numLess (Fin a) (Fin b) = (a < b)"
| "numLess NInf b = (b \<noteq> NInf)"
| "numLess a PInf = (a \<noteq> PInf)"
| "numLess _ _ = False"

definition numLessEq :: "jsnum \<Rightarrow> jsnum \<Rightarrow> bool" where
  "numLessEq a b = (numLess a b \<or> numEq a b)"

subsection \<open>Strings\<close>

text \<open>The white space and line terminators that \<open>trim\<close> and \<open>parseFloat\<close> skip.\<close>

definition isWhiteSpace :: "nat \<Rightarrow> bool" where
  "isWhiteSpace c =
     (c \<in> set [9, 10, 11, 12, 13, 32, 160, 5760, 8232, 8233, 8239, 8287, 12288, 65279]
      \<or> (8192 \<le> c \<and> c \<le> 8202))"

definition trimStart :: "jsstring \<Rightarrow> jsstring" where
  "trimStart s = dropWhile isWhiteSpace s"

definition trim :: "jsstring \<Rightarrow> jsstring" where
  "trim s = rev (dropWhile isWhiteSpace (rev (dropWhile isWhiteSpace s)))"

definition isDigit :: "nat \<Rightarrow> bool" where
  "isDigit c = (48 \<le> c \<and> c \<le> 57)"

definition isAsciiLetter :: "nat \<Rightarrow> bool" where
  "isAsciiLetter c = ((97 \<le> c \<and> c \<le> 122) \<or> (65 \<le> c \<and> c \<le> 90))"

definition digitsValue :: "jsstring \<Rightarrow> nat" where
  "digitsValue ds = foldl (\<lambda>n c. 10 * n + (c - 48)) 0 ds"

fun natDigits :: "nat \<Rightarrow> jsstring" where
  "natDigits n = (if n < 10 then [48 + n] else natDigits (n div 10) @ [48 + n mod 10])"

declare natDigits.simps [simp del]

definition pow10 :: "int \<Rightarrow> rat" where
  "pow10 k = (if 0 \<le> k then 10 ^ nat k else 1 / 10 ^ nat (- k))"

subsection \<open>\<open>parseFloat\<close> and \<open>parseInt\<close>\<close>

text \<open>
  \<open>parseFloat\<close> skips leading white space and reads the longest prefix that is a decimal
  literal: an optional sign, then \<open>Infinity\<close> or digits with an optional fraction and an
  optional exponent. With no such prefix the result is NaN.
\<close>

definition exponentPart :: "jsstring \<Rightarrow> int" where
  "exponentPart r =
     (case r of
        [] \<Rightarrow> 0
      | c # rest \<Rightarrow>
          if c = 101 \<or> c = 69 then
            (case rest of
               [] \<Rightarrow> 0
             | sg # rest' \<Rightarrow>
                 if sg = 43 \<or> sg = 45 then
                   (let ds = takeWhile isDigit rest'
                    in if ds = [] then 0
                       else if sg = 45 then - int (digitsValue ds) else int (digitsValue ds))
                 else (let ds = takeWhile isDigit rest
                       in if ds = [] then 0 else int (digitsValue ds)))
          else 0)"

definition parseUnsigned :: "jsstring \<Rightarrow> jsnum option" where
  "parseUnsigned s =
     (if take 8 s = js ''Infinity'' then Some PInf
      else let ds1 = takeWhile isDigit s;
               r1 = dropWhile isDigit s;
               hasDot = (case r1 of [] \<Rightarrow> False | c # _ \<Rightarrow> c = 46);
               ds2 = (if hasDot then takeWhile isDigit (tl r1) else []);
               r2 = (if hasDot then dropWhile isDigit (tl r1) else r1)
           in if ds1 = [] \<and> ds2 = [] then None
              else Some (toDouble (of_int (int (digitsValue (ds1 @ ds2)))
                                    * pow10 (exponentPart r2 - int (length ds2)))))"

definition parseFloat :: "jsstring \<Rightarrow> jsnum" where
  "parseFloat s =
     (case trimStart s of
        [] \<Rightarrow> NaN
      | c # rest \<Rightarrow>
          if c = 45 then (case parseUnsigned rest of None \<Rightarrow> NaN | Some n \<Rightarrow> numNeg n)
          else if c = 43 then (case parseUnsigned rest of None \<Rightarrow> NaN | Some n \<Rightarrow> n)
          else (case parseUnsigned (c # rest) of None \<Rightarrow> NaN | Some n \<Rightarrow> n))"

text \<open>\<open>parseInt(ds, 10)\<close> on a string of decimal digits (the only use the code makes of it).\<close>

definition parseIntDigits :: "jsstring \<Rightarrow> jsnum" where
  "parseIntDigits ds = toDouble (of_int (int (digitsValue ds)))"

subsection \<open>The string of a number\<close>

text \<open>
  \<open>Number.prototype.toString\<close>: the shortest decimal digits \<open>s\<close> (\<open>k\<close> of them) and the
  exponent \<open>n\<close> such that \<open>s * 10^(n-k)\<close> rounds to the number, laid out as the language
  standard says. \<open>decExp a\<close> is the \<open>n\<close> with \<open>10^(n-1) \<le> a < 10^n\<close>.
\<close>

definition decExp :: "rat \<Rightarrow> int" where
  "decExp a = (let (p, q) = quotient_of a;
                   d = int (length (natDigits (nat p))) - int (length (natDigits (nat q)))
               in if pow10 d \<le> a then d + 1 else d)"

definition digitCandidate :: "rat \<Rightarrow> int \<Rightarrow> nat \<Rightarrow> (int \<times> int) option" where
  "digitCandidate a n k =
     (let sc = pow10 (n - int k);
          lo = \<lfloor>a / sc\<rfloor>;
          hi = lo + 1;
          okLo = (toDouble (of_int lo * sc) = Fin a);
          okHi = (toDouble (of_int hi * sc) = Fin a);
          dLo = a - of_int lo * sc;
          dHi = of_int hi * sc - a;
          pickHi = (okHi \<and> (\<not> okLo \<or> dHi < dLo \<or> (dHi = dLo \<and> even hi)))
      in if pickHi then (if hi = 10 ^ k then Some (10 ^ (k - 1), n + 1) else Some (hi, n))
         else if okLo then Some (lo, n)
         else None)"

fun shortestDigits :: "rat \<Rightarrow> int \<Rightarrow> nat \<Rightarrow> nat \<Rightarrow> int \<times> int" where
  "shortestDigits a n k 0 =
     (case digitCandidate a n k of Some r \<Rightarrow> r | None \<Rightarrow> (\<lfloor>a / pow10 (n - int k)\<rfloor>, n))"
| "shortestDigits a n k (Suc fuel) =
     (case digitCandidate a n k of Some r \<Rightarrow> r | None \<Rightarrow> shortestDigits a n (k + 1) fuel)"

definition formatPositive :: "rat \<Rightarrow> jsstring" where
  "formatPositive a =
     (let (s, n) = shortestDigits a (decExp a) 1 16;
          ds = natDigits (nat s);
          k = int (length ds)
      in if k \<le> n \<and> n \<le> 21 then ds @ replicate (nat (n - k)) 48
         else if 0 < n \<and> n \<le> 21 then take (nat n) ds @ [46] @ drop (nat n) ds
         else if - 6 < n \<and> n \<le> 0 then [48, 46] @ replicate (nat (- n)) 48 @ ds
         else let e = n - 1;
                  es = (if e < 0 then 45 else 43) # natDigits (nat \<bar>e\<bar>)
              in if k = 1 then ds @ [101] @ es
                 else take 1 ds @ [46] @ drop 1 ds @ [101] @ es)"

fun numToString :: "jsnum \<Rightarrow> jsstring" where
  "numToString NaN = js ''NaN''"
| "numToString PInf = js ''Infinity''"
| "numToString NInf = js ''-Infinity''"
| "numToString (Fin q) =
     (if q = 0 then js ''0''
      else if q < 0 then 45 # formatPositive (- q)
      else formatPositive q)"

section \<open>Values and their conversions\<close>

text \<open>
  \<open>types.ts\<close>: a value is an object with a type tag and a payload that is a number or
  a string. The tag does not constrain the payload (\<open>createDiceValue\<close> builds a
  \<open>DICE_EXPRESSION\<close> with a string payload), so the payload is a sum of its own.
\<close>

datatype VariableType = NUMBER | STRING | DICE_EXPRESSION

datatype payload = Num jsnum | Str jsstring

record DicenicValue =
  vtype :: VariableType
  vvalue :: payload

definition numberValue :: "jsnum \<Rightarrow> DicenicValue" where
  "numberValue n = \<lparr>vtype = NUMBER, vvalue = Num n\<rparr>"

definition stringValue :: "jsstring \<Rightarrow> DicenicValue" where
  "stringValue s = \<lparr>vtype = STRING, vvalue = Str s\<rparr>"

text \<open>What JavaScript does with a payload: \<open>String(x)\<close>, \<open>x + y\<close>, \<open>x === y\<close>, \<open>x !== 0\<close>,
  \<open>x !== ''\<close> and \<open>parseFloat(x)\<close>.\<close>

fun payloadString :: "payload \<Rightarrow> jsstring" where
  "payloadString (Num n) = numToString n"
| "payloadString (Str s) = s"

fun jsPlus :: "payload \<Rightarrow> payload \<Rightarrow> payload" where
  "jsPlus (Num a) (Num b) = Num (numAdd a b)"
| "jsPlus a b = Str (payloadString a @ payloadString b)"

fun strictEq :: "payload \<Rightarrow> payload \<Rightarrow> bool" where
  "strictEq (Num a) (Num b) = numEq a b"
| "strictEq (Str a) (Str b) = (a = b)"
| "strictEq _ _ = False"

fun notZero :: "payload \<Rightarrow> bool" where
  "notZero (Num n) = (\<not> numEq n (Fin 0))"
| "notZero (Str _) = True"

fun notEmptyString :: "payload \<Rightarrow> bool" where
  "notEmptyString (Str s) = (s \<noteq> [])"
| "notEmptyString (Num _) = True"

definition parseFloatOf :: "payload \<Rightarrow> jsnum" where
  "parseFloatOf p = parseFloat (payloadString p)"

subsection \<open>\<open>TypeConverter\<close>\<close>

definition toNumber :: "DicenicValue \<Rightarrow> jsnum" where
  "toNumber v =
     (case vtype v of
        NUMBER \<Rightarrow> (case vvalue v of Num n \<Rightarrow> n | Str _ \<Rightarrow> Fin 0)
      | STRING \<Rightarrow> (let parsed = parseFloatOf (vvalue v) in if isNaN parsed then Fin 0 else parsed)
      | DICE_EXPRESSION \<Rightarrow> (case vvalue v of Num n \<Rightarrow> n | Str _ \<Rightarrow> Fin 0))"

text \<open>\<open>toString\<close> returns the payload of a \<open>STRING\<close> as it is, and \<open>value.toString()\<close>
  otherwise.\<close>

definition toString :: "DicenicValue \<Rightarrow> payload" where
  "toString v =
     (case vtype v of
        STRING \<Rightarrow> vvalue v
      | NUMBER \<Rightarrow> Str (payloadString (vvalue v))
      | DICE_EXPRESSION \<Rightarrow> Str (payloadString (vvalue v)))"

definition toBoolean :: "DicenicValue \<Rightarrow> bool" where
  "toBoolean v =
     (case vtype v of
        NUMBER \<Rightarrow> notZero (vvalue v)
      | STRING \<Rightarrow> notEmptyString (vvalue v)
      | DICE_EXPRESSION \<Rightarrow> notZero (vvalue v))"

section \<open>Errors and the error handler\<close>

text \<open>\<open>DicenicError.ts\<close>: the error classes. The class of an error and the fields it
  adds are the \<open>detail\<close>.\<close>

datatype AccessType = ReadAccess | WriteAccess

datatype ErrorDetail =
    SyntaxDetail
  | RuntimeDetail "jsstring option"
  | TypeConversionDetail jsstring jsstring payload
  | VariableAccessDetail jsstring AccessType
  | DiceDetail jsstring
  | LoopDetail jsstring "int option"

record DicenicError =
  message :: jsstring
  line :: int
  column :: int
  detail :: ErrorDetail

fun errorType :: "ErrorDetail \<Rightarrow> jsstring" where
  "errorType SyntaxDetail = js ''SyntaxError''"
| "errorType (RuntimeDetail _) = js ''RuntimeError''"
| "errorType (TypeConversionDetail _ _ _) = js ''TypeConversionError''"
| "errorType (VariableAccessDetail _ _) = js ''VariableAccessError''"
| "errorType (DiceDetail _) = js ''DiceError''"
| "errorType (LoopDetail _ _) = js ''LoopError''"

definition intString :: "int \<Rightarrow> jsstring" where
  "intString i = (if i < 0 then 45 # natDigits (nat (- i)) else natDigits (nat i))"

definition baseFormattedMessage :: "DicenicError \<Rightarrow> jsstring" where
  "baseFormattedMessage e =
     (if 0 \<le> line e \<and> 0 \<le> column e then
        errorType (detail e) @ js '' at line '' @ intString (line e) @ js '', column ''
          @ intString (column e) @ js '': '' @ message e
      else if 0 \<le> line e then
        errorType (detail e) @ js '' at line '' @ intString (line e) @ js '': '' @ message e
      else errorType (detail e) @ js '': '' @ message e)"

definition getFormattedMessage :: "DicenicError \<Rightarrow> jsstring" where
  "getFormattedMessage e =
     (case detail e of
        SyntaxDetail \<Rightarrow> baseFormattedMessage e
      | RuntimeDetail c \<Rightarrow>
          (case c of
             None \<Rightarrow> baseFormattedMessage e
           | Some cx \<Rightarrow> if cx = [] then baseFormattedMessage e
                        else baseFormattedMessage e @ [10] @ js ''Context: '' @ cx)
      | TypeConversionDetail src tgt v \<Rightarrow>
          baseFormattedMessage e @ [10] @ js ''Failed to convert '' @ src @ js ''(''
            @ payloadString v @ js '') to '' @ tgt
      | VariableAccessDetail name acc \<Rightarrow>
          baseFormattedMessage e @ [10] @ js ''Variable: '' @ name @ js '', Access: ''
            @ (case acc of ReadAccess \<Rightarrow> js ''read'' | WriteAccess \<Rightarrow> js ''write'')
      | DiceDetail d \<Rightarrow> baseFormattedMessage e @ [10] @ js ''Dice Expression: '' @ d
      | LoopDetail lt mi \<Rightarrow>
          baseFormattedMessage e @ [10] @ js ''Loop Type: '' @ lt
            @ (case mi of None \<Rightarrow> [] | Some m \<Rightarrow> [10] @ js ''Max Iterations: '' @ intString m))"

text \<open>What a \<open>throw\<close> carries: an error of the taxonomy, or a plain \<open>Error\<close> with its
  message.\<close>

datatype exn = DicenicErr DicenicError | JsError jsstring

fun exnMessage :: "exn \<Rightarrow> jsstring" where
  "exnMessage (DicenicErr e) = message e"
| "exnMessage (JsError m) = m"

datatype 'a outcome = Returned 'a | Thrown exn

subsection \<open>\<open>ErrorHandler\<close>\<close>

record ErrorHandlerConfig =
  enableRecovery :: bool
  logWarnings :: bool
  maxErrors :: int
  useDefaultOnTypeError :: bool

definition DEFAULT_ERROR_CONFIG :: ErrorHandlerConfig where
  "DEFAULT_ERROR_CONFIG =
     \<lparr>enableRecovery = True, logWarnings = True, maxErrors = 10, useDefaultOnTypeError = True\<rparr>"

record ErrorHandler =
  config :: ErrorHandlerConfig
  errors :: "DicenicError list"
  warnings :: "jsstring list"

definition newErrorHandler :: "ErrorHandlerConfig \<Rightarrow> ErrorHandler" where
  "newErrorHandler c = \<lparr>config = c, errors = [], warnings = []\<rparr>"

text \<open>The handler's methods take the handler and return it updated, with what the call
  returned or threw. Writing to the console is not modelled.\<close>

definition tooManyErrors :: "nat \<Rightarrow> DicenicError" where
  "tooManyErrors n =
     \<lparr>message = js ''Too many errors ('' @ natDigits n @ js ''), stopping execution'',
      line = - 1, column = - 1, detail = RuntimeDetail (Some (js ''Error limit exceeded''))\<rparr>"

definition addError :: "DicenicError \<Rightarrow> ErrorHandler \<Rightarrow> unit outcome \<times> ErrorHandler" where
  "addError e h =
     (let h' = h\<lparr>errors := errors h @ [e]\<rparr>
      in if maxErrors (config h') < int (length (errors h'))
         then (Thrown (DicenicErr (tooManyErrors (length (errors h')))), h')
         else (Returned (), h'))"

definition addWarning :: "jsstring \<Rightarrow> ErrorHandler \<Rightarrow> ErrorHandler" where
  "addWarning w h = h\<lparr>warnings := warnings h @ [w]\<rparr>"

text \<open>Add an error, and throw it when recovery is off: what \<open>handleSyntaxError\<close>,
  \<open>handleRuntimeError\<close> and \<open>handleVariableAccessError\<close> do with the error they build.\<close>

definition recordOrThrow :: "DicenicError \<Rightarrow> ErrorHandler \<Rightarrow> unit outcome \<times> ErrorHandler" where
  "recordOrThrow e h =
     (case addError e h of
        (Thrown x, h') \<Rightarrow> (Thrown x, h')
      | (Returned _, h') \<Rightarrow>
          if \<not> enableRecovery (config h') then (Thrown (DicenicErr e), h')
          else (Returned (), h'))"

definition handleSyntaxError ::
  "jsstring \<Rightarrow> int \<Rightarrow> int \<Rightarrow> ErrorHandler \<Rightarrow> unit outcome \<times> ErrorHandler" where
  "handleSyntaxError msg lin col h =
     recordOrThrow \<lparr>message = msg, line = lin, column = col, detail = SyntaxDetail\<rparr> h"

definition handleRuntimeError ::
  "jsstring \<Rightarrow> int \<Rightarrow> int \<Rightarrow> jsstring option \<Rightarrow> ErrorHandler \<Rightarrow> unit outcome \<times> ErrorHandler" where
  "handleRuntimeError msg lin col cx h =
     recordOrThrow \<lparr>message = msg, line = lin, column = col, detail = RuntimeDetail cx\<rparr> h"

definition handleVariableAccessError ::
  "jsstring \<Rightarrow> jsstring \<Rightarrow> AccessType \<Rightarrow> int \<Rightarrow> int \<Rightarrow> ErrorHandler
     \<Rightarrow> unit outcome \<times> ErrorHandler" where
  "handleVariableAccessError msg name acc lin col h =
     recordOrThrow
       \<lparr>message = msg, line = lin, column = col, detail = VariableAccessDetail name acc\<rparr> h"

definition getDefaultValueForType :: "jsstring \<Rightarrow> DicenicValue" where
  "getDefaultValueForType targetType =
     (if targetType = js ''string'' then stringValue []
      else if targetType = js ''dice_expression''
        then \<lparr>vtype = DICE_EXPRESSION, vvalue = Num (Fin 0)\<rparr>
      else numberValue (Fin 0))"

definition toLowerCase :: "jsstring \<Rightarrow> jsstring" where
  "toLowerCase s = map (\<lambda>c. if 65 \<le> c \<and> c \<le> 90 then c + 32 else c) s"

definition handleTypeConversionError ::
  "jsstring \<Rightarrow> jsstring \<Rightarrow> jsstring \<Rightarrow> payload \<Rightarrow> int \<Rightarrow> int \<Rightarrow> ErrorHandler
     \<Rightarrow> DicenicValue option outcome \<times> ErrorHandler" where
  "handleTypeConversionError msg src tgt v lin col h =
     (let e = \<lparr>message = msg, line = lin, column = col, detail = TypeConversionDetail src tgt v\<rparr>
      in if useDefaultOnTypeError (config h)
         then (Returned (Some (getDefaultValueForType (toLowerCase tgt))),
               addWarning (getFormattedMessage e) h)
         else (case recordOrThrow e h of
                 (Thrown x, h') \<Rightarrow> (Thrown x, h')
               | (Returned _, h') \<Rightarrow> (Returned None, h')))"

definition handleDiceError ::
  "jsstring \<Rightarrow> jsstring \<Rightarrow> int \<Rightarrow> int \<Rightarrow> ErrorHandler \<Rightarrow> DicenicValue outcome \<times> ErrorHandler" where
  "handleDiceError msg diceExpression lin col h =
     (let e = \<lparr>message = msg, line = lin, column = col, detail = DiceDetail diceExpression\<rparr>
      in if enableRecovery (config h)
         then (Returned (numberValue (Fin 0)), addWarning (getFormattedMessage e) h)
         else (case addError e h of
                 (Thrown x, h') \<Rightarrow> (Thrown x, h')
               | (Returned _, h') \<Rightarrow> (Thrown (DicenicErr e), h')))"

definition handleLoopError ::
  "jsstring \<Rightarrow> jsstring \<Rightarrow> int option \<Rightarrow> int \<Rightarrow> int \<Rightarrow> ErrorHandler \<Rightarrow> ErrorHandler" where
  "handleLoopError msg loopType maxIterations lin col h =
     addWarning
       (getFormattedMessage
          \<lparr>message = msg, line = lin, column = col, detail = LoopDetail loopType maxIterations\<rparr>) h"

text \<open>
  \<open>performArithmeticOperation\<close> calls \<open>this.errorHandler.addPublicWarning\<close> on a division
  or a modulo by zero. The \<open>ErrorHandler\<close> class has no such method (its \<open>addWarning\<close> is
  private and is called by the handler's own methods only), so the call throws a
  \<open>TypeError\<close> before anything is recorded; this is its message.
\<close>

definition addPublicWarningTypeError :: exn where
  "addPublicWarningTypeError =
     JsError (js ''this.errorHandler.addPublicWarning is not a function'')"

section \<open>The execution context\<close>

text \<open>\<open>ExecutionContext.ts\<close>: five maps from names to values. The maps are the state
  the interpreter mutates; here each operation returns the context it leaves.\<close>

record ExecutionContext =
  attributes :: "jsstring \<rightharpoonup> DicenicValue"
  roleInfo :: "jsstring \<rightharpoonup> DicenicValue"
  systemInfo :: "jsstring \<rightharpoonup> DicenicValue"
  diceInfo :: "jsstring \<rightharpoonup> DicenicValue"
  variables :: "jsstring \<rightharpoonup> DicenicValue"

definition emptyContext :: ExecutionContext where
  "emptyContext =
     \<lparr>attributes = Map.empty, roleInfo = Map.empty, systemInfo = Map.empty,
      diceInfo = Map.empty, variables = Map.empty\<rparr>"

definition getVariable :: "ExecutionContext \<Rightarrow> jsstring \<Rightarrow> DicenicValue" where
  "getVariable c name = (case variables c name of Some v \<Rightarrow> v | None \<Rightarrow> numberValue (Fin 0))"

definition setVariable :: "ExecutionContext \<Rightarrow> jsstring \<Rightarrow> DicenicValue \<Rightarrow> ExecutionContext" where
  "setVariable c name v = c\<lparr>variables := (variables c)(name \<mapsto> v)\<rparr>"

definition unknownPrefix :: "jsstring \<Rightarrow> exn" where
  "unknownPrefix prefix = JsError (js ''Unknown special variable prefix: '' @ prefix)"

definition getStorageByPrefix ::
  "ExecutionContext \<Rightarrow> jsstring \<Rightarrow> (jsstring \<rightharpoonup> DicenicValue) outcome" where
  "getStorageByPrefix c prefix =
     (if prefix = js ''a'' then Returned (attributes c)
      else if prefix = js ''r'' then Returned (roleInfo c)
      else if prefix = js ''s'' then Returned (systemInfo c)
      else if prefix = js ''d'' then Returned (diceInfo c)
      else Thrown (unknownPrefix prefix))"

definition getSpecialVariable :: "ExecutionContext \<Rightarrow> jsstring \<Rightarrow> jsstring \<Rightarrow> DicenicValue outcome" where
  "getSpecialVariable c prefix name =
     (case getStorageByPrefix c prefix of
        Thrown e \<Rightarrow> Thrown e
      | Returned storage \<Rightarrow>
          (case storage name of
             Some v \<Rightarrow> Returned v
           | None \<Rightarrow>
               if prefix = js ''r'' \<or> prefix = js ''s'' then Returned (stringValue [])
               else Returned (numberValue (Fin 0))))"

definition canWriteSpecialVariable :: "jsstring \<Rightarrow> bool" where
  "canWriteSpecialVariable prefix =
     (if prefix = js ''a'' \<or> prefix = js ''d'' then True
      else if prefix = js ''r'' \<or> prefix = js ''s'' then False
      else False)"

text \<open>\<open>storage.set(name, value)\<close> on the map that \<open>getStorageByPrefix\<close> returns.\<close>

definition setInStorage ::
  "ExecutionContext \<Rightarrow> jsstring \<Rightarrow> jsstring \<Rightarrow> DicenicValue \<Rightarrow> ExecutionContext outcome" where
  "setInStorage c prefix name v =
     (if prefix = js ''a'' then Returned (c\<lparr>attributes := (attributes c)(name \<mapsto> v)\<rparr>)
      else if prefix = js ''r'' then Returned (c\<lparr>roleInfo := (roleInfo c)(name \<mapsto> v)\<rparr>)
      else if prefix = js ''s'' then Returned (c\<lparr>systemInfo := (systemInfo c)(name \<mapsto> v)\<rparr>)
      else if prefix = js ''d'' then Returned (c\<lparr>diceInfo := (diceInfo c)(name \<mapsto> v)\<rparr>)
      else Thrown (unknownPrefix prefix))"

definition setSpecialVariable ::
  "ExecutionContext \<Rightarrow> jsstring \<Rightarrow> jsstring \<Rightarrow> DicenicValue \<Rightarrow> ExecutionContext outcome" where
  "setSpecialVariable c prefix name v =
     (if \<not> canWriteSpecialVariable prefix
      then Thrown (JsError (js ''Cannot write to read-only variable: $'' @ prefix @ name))
      else setInStorage c prefix name v)"

section \<open>String interpolation\<close>

text \<open>\<open>StringInterpolator.ts\<close>. The spans are the matches of \<open>/\{\$([^}]*)\}/g\<close>, found
  from left to right: an opening \<open>{$\<close>, the body up to the first \<open>}\<close>, and that \<open>}\<close>.\<close>

record InterpolationExpression =
  spanStart :: nat
  spanEnd :: nat
  expression :: jsstring

function scanSpans :: "nat \<Rightarrow> jsstring \<Rightarrow> InterpolationExpression list" where
  "scanSpans pos [] = []"
| "scanSpans pos [c] = []"
| "scanSpans pos (c # d # cs) =
     (if c = 123 \<and> d = 36 then
        (case dropWhile (\<lambda>x. x \<noteq> 125) cs of
           [] \<Rightarrow> scanSpans (pos + 1) (d # cs)
         | _ # after \<Rightarrow>
             (let body = takeWhile (\<lambda>x. x \<noteq> 125) cs
              in \<lparr>spanStart = pos, spanEnd = pos + 3 + length body, expression = body\<rparr>
                 # scanSpans (pos + 3 + length body) after))
      else scanSpans (pos + 1) (d # cs))"
  by pat_completeness auto
termination
proof (relation "measure (\<lambda>(pos, s). length s)", goal_cases)
  case (3 pos c d cs x21 x22)
  have "length (dropWhile (\<lambda>x. x \<noteq> 125) cs) \<le> length cs"
    by (rule length_dropWhile_le)
  with 3 show ?case by simp
qed simp_all

definition parseInterpolationExpressions :: "jsstring \<Rightarrow> InterpolationExpression list" where
  "parseInterpolationExpressions template = scanSpans 0 template"

text \<open>\<open>hasInterpolation\<close> tests the same regular expression.\<close>

definition hasInterpolation :: "jsstring \<Rightarrow> bool" where
  "hasInterpolation template = (template \<noteq> [] \<and> scanSpans 0 template \<noteq> [])"

definition isCJK :: "nat \<Rightarrow> bool" where
  "isCJK c = (19968 \<le> c \<and> c \<le> 40869)"

definition isSpecialVariableExpression :: "jsstring \<Rightarrow> bool" where
  "isSpecialVariableExpression e =
     (if length e < 2 then False
      else if hd e \<notin> set (js ''arsd'') then False
      else let restOfExpression = tl e
           in if list_all isAsciiLetter restOfExpression then False
              else (list_ex isCJK restOfExpression \<or> hd restOfExpression = 95))"

definition evaluateSpecialVariable :: "jsstring \<Rightarrow> ExecutionContext \<Rightarrow> payload" where
  "evaluateSpecialVariable e c =
     (let prefix = take 1 e; variableName = drop 1 e
      in if variableName = [] then Str []
         else (case getSpecialVariable c prefix variableName of
                 Returned v \<Rightarrow> toString v
               | Thrown _ \<Rightarrow> Str []))"

definition evaluateNormalVariable :: "jsstring \<Rightarrow> ExecutionContext \<Rightarrow> payload" where
  "evaluateNormalVariable e c = toString (getVariable c e)"

definition evaluateExpression :: "jsstring \<Rightarrow> ExecutionContext \<Rightarrow> payload" where
  "evaluateExpression e c =
     (let trimmedExpr = trim e
      in if trimmedExpr = [] then Str []
         else if isSpecialVariableExpression trimmedExpr then evaluateSpecialVariable trimmedExpr c
         else evaluateNormalVariable trimmedExpr c)"

text \<open>The spans are replaced from the last to the first, so the offsets of the earlier
  ones stay right.\<close>

definition replaceSpan :: "ExecutionContext \<Rightarrow> InterpolationExpression \<Rightarrow> jsstring \<Rightarrow> jsstring" where
  "replaceSpan c ex result =
     take (spanStart ex) result @ payloadString (evaluateExpression (expression ex) c)
       @ drop (spanEnd ex) result"

definition interpolate :: "jsstring \<Rightarrow> ExecutionContext \<Rightarrow> jsstring" where
  "interpolate template c =
     (if template = [] then []
      else let expressions = parseInterpolationExpressions template
           in if expressions = [] then template
              else foldr (replaceSpan c) expressions template)"

section \<open>The interpreter's state\<close>

text \<open>
  What a run can change: the execution context, the error handler, the interpreter's
  \<open>lastValue\<close>, and how many numbers have been drawn from \<open>Math.random\<close> (\<open>randoms\<close> is
  the sequence it will return). A method is a function from the state to what it
  returned or threw, and the state it left: a \<open>throw\<close> keeps the changes made before it.
\<close>

record istate =
  ctx :: ExecutionContext
  errorHandler :: ErrorHandler
  lastValue :: DicenicValue
  randoms :: "nat \<Rightarrow> rat"
  drawn :: nat

type_synonym 'a M = "istate \<Rightarrow> 'a outcome \<times> istate"

definition ret :: "'a \<Rightarrow> 'a M" where
  "ret x = (\<lambda>s. (Returned x, s))"

definition throw :: "exn \<Rightarrow> 'a M" where
  "throw e = (\<lambda>s. (Thrown e, s))"

definition andThen :: "'a M \<Rightarrow> ('a \<Rightarrow> 'b M) \<Rightarrow> 'b M" where
  "andThen m f = (\<lambda>s. case m s of (Returned x, s') \<Rightarrow> f x s' | (Thrown e, s') \<Rightarrow> (Thrown e, s'))"

definition withHandler :: "(ErrorHandler \<Rightarrow> 'a outcome \<times> ErrorHandler) \<Rightarrow> 'a M" where
  "withHandler f = (\<lambda>s. case f (errorHandler s) of (r, h) \<Rightarrow> (r, s\<lparr>errorHandler := h\<rparr>))"

definition fromContext :: "(ExecutionContext \<Rightarrow> 'a outcome) \<Rightarrow> 'a M" where
  "fromContext f = (\<lambda>s. (f (ctx s), s))"

section \<open>Dice\<close>

text \<open>\<open>DiceCalculator.ts\<close>. The lower case of the expression matters only for its \<open>D\<close>.\<close>

definition parseDiceExpression :: "jsstring \<Rightarrow> (jsnum \<times> jsnum) outcome" where
  "parseDiceExpression e =
     (let cleanExpression = toLowerCase (trim e);
          ds1 = takeWhile isDigit cleanExpression;
          r = dropWhile isDigit cleanExpression
      in case r of
           [] \<Rightarrow> Thrown (JsError (js ''Invalid dice expression format: '' @ e))
         | c # ds2 \<Rightarrow>
             if c = 100 \<and> ds1 \<noteq> [] \<and> ds2 \<noteq> [] \<and> list_all isDigit ds2
             then Returned (parseIntDigits ds1, parseIntDigits ds2)
             else Thrown (JsError (js ''Invalid dice expression format: '' @ e)))"

definition MAX_DICE_COUNT :: jsnum where
  "MAX_DICE_COUNT = Fin 1000"

definition MAX_DICE_SIDES :: jsnum where
  "MAX_DICE_SIDES = Fin 10000"

definition validateDiceExpression :: "jsnum \<Rightarrow> jsnum \<Rightarrow> bool" where
  "validateDiceExpression count sides =
     (if \<not> isInteger count \<or> \<not> isInteger sides then False
      else if numLessEq count (Fin 0) \<or> numLessEq sides (Fin 0) then False
      else if numLess MAX_DICE_COUNT count \<or> numLess MAX_DICE_SIDES sides then False
      else True)"

fun mathFloor :: "jsnum \<Rightarrow> jsnum" where
  "mathFloor (Fin q) = Fin (of_int \<lfloor>q\<rfloor>)"
| "mathFloor n = n"

fun rollLoop :: "nat \<Rightarrow> jsnum \<Rightarrow> jsnum \<Rightarrow> istate \<Rightarrow> jsnum \<times> istate" where
  "rollLoop 0 sides tot s = (tot, s)"
| "rollLoop (Suc n) sides tot s =
     rollLoop n sides
       (numAdd tot (numAdd (mathFloor (numMul (Fin (randoms s (drawn s))) sides)) (Fin 1)))
       (s\<lparr>drawn := drawn s + 1\<rparr>)"

definition iterations :: "jsnum \<Rightarrow> nat" where
  "iterations count = (case count of Fin q \<Rightarrow> nat \<lceil>q\<rceil> | _ \<Rightarrow> 0)"

definition calculate :: "jsnum \<Rightarrow> jsnum \<Rightarrow> jsnum M" where
  "calculate count sides =
     (if \<not> validateDiceExpression count sides
      then throw (JsError (js ''Invalid dice expression: '' @ numToString count @ js ''d''
                            @ numToString sides))
      else (\<lambda>s. case rollLoop (iterations count) sides (Fin 0) s of
                  (tot, s') \<Rightarrow> (Returned tot, s')))"

definition evaluateDiceExpression :: "jsstring \<Rightarrow> DicenicValue M" where
  "evaluateDiceExpression e =
     (case parseDiceExpression e of
        Thrown x \<Rightarrow> throw x
      | Returned (count, sides) \<Rightarrow>
          andThen (calculate count sides)
            (\<lambda>r. ret \<lparr>vtype = DICE_EXPRESSION, vvalue = Num r\<rparr>))"

section \<open>The parse tree\<close>

text \<open>
  The interpreter visits the tree of the grammar \<open>Dicenic.g4\<close>. A node that only wraps
  its single child (\<open>statement\<close>, \<open>expression\<close>, \<open>postfixExpression\<close>, and every
  operator level with no operator) evaluates to what the child evaluates to and is
  left out; a chain of operators keeps its first operand and the list of the operators
  with their operands, as the visitor reads them. A dice literal and a \<open>while\<close> carry
  the line and column the interpreter reports.
\<close>

datatype binop =
    PLUS | MINUS | MULTIPLY | DIVIDE | MODULO
  | GREATER_THAN | LESS_THAN | GREATER_EQUAL | LESS_EQUAL | EQUAL | NOT_EQUAL

datatype unop = LOGICAL_NOT | UNARY_MINUS | UNARY_PLUS

datatype assignop = ASSIGN | PLUS_ASSIGN | MINUS_ASSIGN | MULT_ASSIGN | DIV_ASSIGN | MOD_ASSIGN

datatype expr =
    NumberLiteral jsstring
  | StringLiteral jsstring
  | DiceExpression jsstring int int
  | SpecialVariable jsstring
  | Identifier jsstring
  | Parenthesized expr
  | AssignmentExpression expr assignop expr
  | UnaryExpression unop expr
  | MultiplicativeExpression expr "(binop \<times> expr) list"
  | AdditiveExpression expr "(binop \<times> expr) list"
  | RelationalExpression expr "(binop \<times> expr) list"
  | EqualityExpression expr "(binop \<times> expr) list"
  | LogicalAndExpression expr "expr list"
  | LogicalOrExpression expr "expr list"
  | TernaryExpression expr expr expr

datatype stmt =
    IfStatement expr stmt "stmt option"
  | WhileStatement int int expr stmt
  | ExpressionStatement expr
  | Block "stmt list"

section \<open>The interpreter\<close>

subsection \<open>Literals and variables\<close>

definition visitNumberLiteral :: "jsstring \<Rightarrow> DicenicValue" where
  "visitNumberLiteral text =
     (let v = parseFloat text in numberValue (if isNaN v then Fin 0 else v))"

text \<open>\<open>text.replace(/\\x/g, r)\<close>: every backslash followed by \<open>x\<close> becomes \<open>r\<close>.\<close>

fun replaceEscape :: "nat \<Rightarrow> nat \<Rightarrow> jsstring \<Rightarrow> jsstring" where
  "replaceEscape x r (a # b # cs) =
     (if a = 92 \<and> b = x then r # replaceEscape x r cs else a # replaceEscape x r (b # cs))"
| "replaceEscape x r cs = cs"

definition stripQuotes :: "jsstring \<Rightarrow> jsstring" where
  "stripQuotes text =
     (if text \<noteq> [] \<and> ((hd text = 34 \<and> last text = 34) \<or> (hd text = 39 \<and> last text = 39))
      then butlast (tl text) else text)"

definition decodeEscapes :: "jsstring \<Rightarrow> jsstring" where
  "decodeEscapes text =
     replaceEscape 114 13 (replaceEscape 116 9 (replaceEscape 110 10
       (replaceEscape 92 92 (replaceEscape 39 39 (replaceEscape 34 34 text)))))"

definition visitStringLiteral :: "jsstring \<Rightarrow> ExecutionContext \<Rightarrow> DicenicValue" where
  "visitStringLiteral text0 c =
     (let text = decodeEscapes (stripQuotes text0)
      in stringValue (if hasInterpolation text then interpolate text c else text))"

definition wellFormedSpecial :: "jsstring \<Rightarrow> bool" where
  "wellFormedSpecial text = (take 1 text = js ''$'' \<and> 2 < length text)"

definition visitSpecialVariable :: "jsstring \<Rightarrow> DicenicValue M" where
  "visitSpecialVariable text =
     (if wellFormedSpecial text
      then fromContext (\<lambda>c. getSpecialVariable c (take 1 (drop 1 text)) (drop 2 text))
      else ret (numberValue (Fin 0)))"

definition visitDiceExpression :: "jsstring \<Rightarrow> int \<Rightarrow> int \<Rightarrow> DicenicValue M" where
  "visitDiceExpression text lin col =
     (\<lambda>s. case evaluateDiceExpression text s of
             (Returned v, s') \<Rightarrow> (Returned v, s')
           | (Thrown x, s') \<Rightarrow>
               withHandler
                 (handleDiceError (js ''Failed to evaluate dice expression: '' @ exnMessage x)
                    text lin col) s')"

subsection \<open>Operators\<close>

definition performArithmeticOperation ::
  "DicenicValue \<Rightarrow> DicenicValue \<Rightarrow> binop \<Rightarrow> DicenicValue M" where
  "performArithmeticOperation left right operator =
     (let leftIsNonNumericString = (vtype left = STRING \<and> isNaN (parseFloatOf (vvalue left)));
          rightIsNonNumericString = (vtype right = STRING \<and> isNaN (parseFloatOf (vvalue right)))
      in if operator = PLUS \<and> (leftIsNonNumericString \<or> rightIsNonNumericString)
         then ret \<lparr>vtype = STRING, vvalue = jsPlus (toString left) (toString right)\<rparr>
         else let leftNum = toNumber left; rightNum = toNumber right
              in case operator of
                   PLUS \<Rightarrow> ret (numberValue (numAdd leftNum rightNum))
                 | MINUS \<Rightarrow> ret (numberValue (numSub leftNum rightNum))
                 | MULTIPLY \<Rightarrow> ret (numberValue (numMul leftNum rightNum))
                 | DIVIDE \<Rightarrow>
                     if numEq rightNum (Fin 0) then throw addPublicWarningTypeError
                     else ret (numberValue (numDiv leftNum rightNum))
                 | MODULO \<Rightarrow>
                     if numEq rightNum (Fin 0) then throw addPublicWarningTypeError
                     else ret (numberValue (numMod leftNum rightNum))
                 | _ \<Rightarrow> ret (numberValue (Fin 0)))"

definition boolNumber :: "bool \<Rightarrow> DicenicValue" where
  "boolNumber b = numberValue (if b then Fin 1 else Fin 0)"

definition performComparisonOperation ::
  "DicenicValue \<Rightarrow> DicenicValue \<Rightarrow> binop \<Rightarrow> DicenicValue" where
  "performComparisonOperation left right operator =
     (if operator = EQUAL \<or> operator = NOT_EQUAL then
        (let r = (if vtype left = vtype right then strictEq (vvalue left) (vvalue right)
                  else strictEq (toString left) (toString right))
         in boolNumber (if operator = NOT_EQUAL then \<not> r else r))
      else
        (let leftNum = toNumber left; rightNum = toNumber right
         in boolNumber
              (case operator of
                 GREATER_THAN \<Rightarrow> numLess rightNum leftNum
               | LESS_THAN \<Rightarrow> numLess leftNum rightNum
               | GREATER_EQUAL \<Rightarrow> numLessEq rightNum leftNum
               | LESS_EQUAL \<Rightarrow> numLessEq leftNum rightNum
               | _ \<Rightarrow> False)))"

text \<open>One step of each operator chain: the visitor applies the operators it knows and
  leaves the result as it is for any other.\<close>

definition additiveStep :: "binop \<Rightarrow> DicenicValue \<Rightarrow> DicenicValue \<Rightarrow> DicenicValue M" where
  "additiveStep operator result rightOperand =
     (if operator = PLUS then performArithmeticOperation result rightOperand PLUS
      else if operator = MINUS then performArithmeticOperation result rightOperand MINUS
      else ret result)"

definition multiplicativeStep :: "binop \<Rightarrow> DicenicValue \<Rightarrow> DicenicValue \<Rightarrow> DicenicValue M" where
  "multiplicativeStep operator result rightOperand =
     (if operator = MULTIPLY then performArithmeticOperation result rightOperand MULTIPLY
      else if operator = DIVIDE then performArithmeticOperation result rightOperand DIVIDE
      else if operator = MODULO then performArithmeticOperation result rightOperand MODULO
      else ret result)"

definition relationalStep :: "binop \<Rightarrow> DicenicValue \<Rightarrow> DicenicValue \<Rightarrow> DicenicValue M" where
  "relationalStep operator result rightOperand =
     (if operator = GREATER_THAN \<or> operator = LESS_THAN \<or> operator = GREATER_EQUAL
         \<or> operator = LESS_EQUAL
      then ret (performComparisonOperation result rightOperand operator)
      else ret result)"

definition equalityStep :: "binop \<Rightarrow> DicenicValue \<Rightarrow> DicenicValue \<Rightarrow> DicenicValue M" where
  "equalityStep operator result rightOperand =
     (if operator = EQUAL \<or> operator = NOT_EQUAL
      then ret (performComparisonOperation result rightOperand operator)
      else ret result)"

text \<open>The loop of \<open>visitAdditiveExpression\<close> and its three siblings: visit the next
  operand, apply the operator.\<close>

fun chainLoop ::
  "('e \<Rightarrow> DicenicValue M) \<Rightarrow> (binop \<Rightarrow> DicenicValue \<Rightarrow> DicenicValue \<Rightarrow> DicenicValue M)
     \<Rightarrow> (binop \<times> 'e) list \<Rightarrow> DicenicValue \<Rightarrow> DicenicValue M" where
  "chainLoop ev step [] result = ret result"
| "chainLoop ev step ((operator, e) # rest) result =
     andThen (ev e) (\<lambda>rightOperand.
       andThen (step operator result rightOperand) (\<lambda>r. chainLoop ev step rest r))"

text \<open>The loops of \<open>visitLogicalOrExpression\<close> and \<open>visitLogicalAndExpression\<close>: the test
  at the head of each round returns before the next operand is visited.\<close>

fun orLoop :: "('e \<Rightarrow> DicenicValue M) \<Rightarrow> 'e list \<Rightarrow> DicenicValue \<Rightarrow> DicenicValue M" where
  "orLoop ev [] result = ret result"
| "orLoop ev (e # rest) result =
     (if toBoolean result then ret (numberValue (Fin 1))
      else andThen (ev e) (\<lambda>rightOperand.
             orLoop ev rest (boolNumber (toBoolean result \<or> toBoolean rightOperand))))"

fun andLoop :: "('e \<Rightarrow> DicenicValue M) \<Rightarrow> 'e list \<Rightarrow> DicenicValue \<Rightarrow> DicenicValue M" where
  "andLoop ev [] result = ret result"
| "andLoop ev (e # rest) result =
     (if \<not> toBoolean result then ret (numberValue (Fin 0))
      else andThen (ev e) (\<lambda>rightOperand.
             andLoop ev rest (boolNumber (toBoolean result \<and> toBoolean rightOperand))))"

lemma chainLoop_cong [fundef_cong]:
  "rest = rest' \<Longrightarrow> step = step' \<Longrightarrow> (\<And>e. e \<in> snd ` set rest' \<Longrightarrow> ev e = ev' e)
   \<Longrightarrow> chainLoop ev step rest = chainLoop ev' step' rest'"
proof (induction rest' arbitrary: rest)
  case Nil
  show ?case unfolding Nil by (rule ext) simp
next
  case (Cons p ps)
  obtain operator e where p: "p = (operator, e)" by (cases p)
  have h1: "ev e = ev' e" using Cons.prems(3) p by simp
  have h2: "chainLoop ev step ps = chainLoop ev' step' ps"
    using Cons.IH Cons.prems by simp
  show ?case unfolding Cons.prems(1) p
  proof (rule ext)
    fix r
    show "chainLoop ev step ((operator, e) # ps) r = chainLoop ev' step' ((operator, e) # ps) r"
      using h1 h2 Cons.prems(2) by simp
  qed
qed

lemma orLoop_cong [fundef_cong]:
  "rest = rest' \<Longrightarrow> (\<And>e. e \<in> set rest' \<Longrightarrow> ev e = ev' e)
   \<Longrightarrow> orLoop ev rest = orLoop ev' rest'"
proof (induction rest' arbitrary: rest)
  case Nil
  show ?case unfolding Nil by (rule ext) simp
next
  case (Cons e es)
  have h1: "ev e = ev' e" using Cons.prems(2) by simp
  have h2: "orLoop ev es = orLoop ev' es"
    using Cons.IH Cons.prems by simp
  show ?case unfolding Cons.prems(1)
  proof (rule ext)
    fix r
    show "orLoop ev (e # es) r = orLoop ev' (e # es) r"
      using h1 h2 by simp
  qed
qed

lemma andLoop_cong [fundef_cong]:
  "rest = rest' \<Longrightarrow> (\<And>e. e \<in> set rest' \<Longrightarrow> ev e = ev' e)
   \<Longrightarrow> andLoop ev rest = andLoop ev' rest'"
proof (induction rest' arbitrary: rest)
  case Nil
  show ?case unfolding Nil by (rule ext) simp
next
  case (Cons e es)
  have h1: "ev e = ev' e" using Cons.prems(2) by simp
  have h2: "andLoop ev es = andLoop ev' es"
    using Cons.IH Cons.prems by simp
  show ?case unfolding Cons.prems(1)
  proof (rule ext)
    fix r
    show "andLoop ev (e # es) r = andLoop ev' (e # es) r"
      using h1 h2 by simp
  qed
qed

subsection \<open>Assignment\<close>

text \<open>\<open>performAssignment\<close>, in its three steps: read the current value of the target
  (compound operators only), compute the final value, store it.\<close>

definition invalidLeftHandSide :: exn where
  "invalidLeftHandSide = JsError (js ''Invalid left-hand side in assignment'')"

definition currentValueOf :: "expr \<Rightarrow> DicenicValue M" where
  "currentValueOf lhs =
     (case lhs of
        Identifier varName \<Rightarrow> (\<lambda>s. (Returned (getVariable (ctx s) varName), s))
      | SpecialVariable text \<Rightarrow>
          if wellFormedSpecial text
          then fromContext (\<lambda>c. getSpecialVariable c (take 1 (drop 1 text)) (drop 2 text))
          else ret (numberValue (Fin 0))
      | _ \<Rightarrow> throw invalidLeftHandSide)"

definition compoundValue :: "assignop \<Rightarrow> DicenicValue \<Rightarrow> DicenicValue \<Rightarrow> DicenicValue M" where
  "compoundValue operator currentValue rightValue =
     (case operator of
        PLUS_ASSIGN \<Rightarrow> performArithmeticOperation currentValue rightValue PLUS
      | MINUS_ASSIGN \<Rightarrow> performArithmeticOperation currentValue rightValue MINUS
      | MULT_ASSIGN \<Rightarrow> performArithmeticOperation currentValue rightValue MULTIPLY
      | DIV_ASSIGN \<Rightarrow> performArithmeticOperation currentValue rightValue DIVIDE
      | MOD_ASSIGN \<Rightarrow> performArithmeticOperation currentValue rightValue MODULO
      | ASSIGN \<Rightarrow> throw (JsError (js ''Unknown assignment operator: ='')))"

definition writeDenied :: "jsstring \<Rightarrow> jsstring \<Rightarrow> unit M" where
  "writeDenied msg text = withHandler (handleVariableAccessError msg text WriteAccess (- 1) (- 1))"

definition storeFinalValue :: "expr \<Rightarrow> DicenicValue \<Rightarrow> DicenicValue M" where
  "storeFinalValue lhs finalValue =
     (case lhs of
        Identifier varName \<Rightarrow>
          (\<lambda>s. (Returned finalValue, s\<lparr>ctx := setVariable (ctx s) varName finalValue\<rparr>))
      | SpecialVariable text \<Rightarrow>
          if wellFormedSpecial text then
            (let prefix = take 1 (drop 1 text); name = drop 2 text
             in if \<not> canWriteSpecialVariable prefix
                then andThen
                       (writeDenied (js ''Cannot write to read-only variable: '' @ text) text)
                       (\<lambda>_. ret finalValue)
                else (\<lambda>s. case setSpecialVariable (ctx s) prefix name finalValue of
                             Returned c \<Rightarrow> (Returned finalValue, s\<lparr>ctx := c\<rparr>)
                           | Thrown x \<Rightarrow>
                               andThen (writeDenied (exnMessage x) text) (\<lambda>_. ret finalValue) s))
          else throw (JsError (js ''Invalid special variable format: '' @ text))
      | _ \<Rightarrow> throw invalidLeftHandSide)"

text \<open>The first half of \<open>performAssignment\<close>, which computes \<open>finalValue\<close>; the second
  half stores it.\<close>

definition finalValueOf :: "expr \<Rightarrow> DicenicValue \<Rightarrow> assignop \<Rightarrow> DicenicValue M" where
  "finalValueOf lhs rightValue operator =
     (if operator = ASSIGN then ret rightValue
      else andThen (currentValueOf lhs)
             (\<lambda>currentValue. compoundValue operator currentValue rightValue))"

definition performAssignment :: "expr \<Rightarrow> DicenicValue \<Rightarrow> assignop \<Rightarrow> DicenicValue M" where
  "performAssignment lhs rightValue operator =
     andThen (finalValueOf lhs rightValue operator)
       (\<lambda>finalValue. storeFinalValue lhs finalValue)"

subsection \<open>Expressions\<close>

lemma size_operand_less:
  "x \<in> set xs \<Longrightarrow> size (x :: expr) < Suc (size_list size xs)"
  by (induction xs) auto

lemma size_chain_operand_less:
  "(a, x) \<in> set ps \<Longrightarrow> size (x :: expr) < Suc (size_list (size_prod (\<lambda>_. 0) size) ps)"
  by (induction ps) auto

function visit :: "expr \<Rightarrow> DicenicValue M" where
  "visit (NumberLiteral text) = ret (visitNumberLiteral text)"
| "visit (StringLiteral text) = (\<lambda>s. (Returned (visitStringLiteral text (ctx s)), s))"
| "visit (DiceExpression text lin col) = visitDiceExpression text lin col"
| "visit (SpecialVariable text) = visitSpecialVariable text"
| "visit (Identifier name) = (\<lambda>s. (Returned (getVariable (ctx s) name), s))"
| "visit (Parenthesized e) = visit e"
| "visit (AssignmentExpression lhs operator rhs) =
     andThen (visit rhs) (\<lambda>rightValue. performAssignment lhs rightValue operator)"
| "visit (UnaryExpression operator e) =
     andThen (visit e) (\<lambda>operand.
       case operator of
         LOGICAL_NOT \<Rightarrow> ret (boolNumber (\<not> toBoolean operand))
       | UNARY_MINUS \<Rightarrow> ret (numberValue (numNeg (toNumber operand)))
       | UNARY_PLUS \<Rightarrow> ret (numberValue (toNumber operand)))"
| "visit (MultiplicativeExpression e rest) =
     andThen (visit e) (\<lambda>result. chainLoop visit multiplicativeStep rest result)"
| "visit (AdditiveExpression e rest) =
     andThen (visit e) (\<lambda>result. chainLoop visit additiveStep rest result)"
| "visit (RelationalExpression e rest) =
     andThen (visit e) (\<lambda>result. chainLoop visit relationalStep rest result)"
| "visit (EqualityExpression e rest) =
     andThen (visit e) (\<lambda>result. chainLoop visit equalityStep rest result)"
| "visit (LogicalAndExpression e rest) =
     andThen (visit e) (\<lambda>result. andLoop visit rest result)"
| "visit (LogicalOrExpression e rest) =
     andThen (visit e) (\<lambda>result. orLoop visit rest result)"
| "visit (TernaryExpression c e1 e2) =
     andThen (visit c) (\<lambda>condition. if toBoolean condition then visit e1 else visit e2)"
  by pat_completeness auto
termination
proof (relation "measure size", goal_cases)
  case 1
  then show ?case by simp
qed (auto dest: size_operand_less size_chain_operand_less)

subsection \<open>Statements\<close>

definition maxLoopCount :: nat where
  "maxLoopCount = 10000"

definition setLastValue :: "DicenicValue \<Rightarrow> unit M" where
  "setLastValue v = (\<lambda>s. (Returned (), s\<lparr>lastValue := v\<rparr>))"

text \<open>The \<open>while\<close> of \<open>visitWhileStatement\<close>, with its counter; it returns the last
  result and the count it stopped at.\<close>

function whileLoop ::
  "DicenicValue M \<Rightarrow> DicenicValue M \<Rightarrow> nat \<Rightarrow> DicenicValue \<Rightarrow> (DicenicValue \<times> nat) M" where
  "whileLoop cond body loopCount result =
     (if loopCount < maxLoopCount then
        andThen cond (\<lambda>conditionValue.
          if \<not> toBoolean conditionValue then ret (result, loopCount)
          else andThen body (\<lambda>r.
                 andThen (setLastValue r) (\<lambda>_. whileLoop cond body (loopCount + 1) r)))
      else ret (result, loopCount))"
  by pat_completeness auto
termination
  by (relation "measure (\<lambda>(cond, body, loopCount, result). maxLoopCount - loopCount)") auto

declare whileLoop.simps [simp del]

definition visitWhileStatement ::
  "int \<Rightarrow> int \<Rightarrow> DicenicValue M \<Rightarrow> DicenicValue M \<Rightarrow> DicenicValue M" where
  "visitWhileStatement lin col cond body =
     andThen (whileLoop cond body 0 (numberValue (Fin 0))) (\<lambda>(result, loopCount).
       if maxLoopCount \<le> loopCount then
         andThen
           (withHandler (\<lambda>h. (Returned (),
              handleLoopError
                (js ''While loop exceeded maximum iteration count, terminating to prevent infinite loop'')
                (js ''while'') (Some (int maxLoopCount)) lin col h)))
           (\<lambda>_. ret result)
       else ret result)"

text \<open>The loop of \<open>visitBlock\<close> and of \<open>visitProgram\<close>: every statement's result becomes
  the \<open>lastValue\<close>.\<close>

fun statementsLoop :: "('s \<Rightarrow> DicenicValue M) \<Rightarrow> 's list \<Rightarrow> DicenicValue \<Rightarrow> DicenicValue M" where
  "statementsLoop ex [] result = ret result"
| "statementsLoop ex (st # rest) result =
     andThen (ex st) (\<lambda>r. andThen (setLastValue r) (\<lambda>_. statementsLoop ex rest r))"

lemma statementsLoop_cong [fundef_cong]:
  "rest = rest' \<Longrightarrow> (\<And>st. st \<in> set rest' \<Longrightarrow> ex st = ex' st)
   \<Longrightarrow> statementsLoop ex rest = statementsLoop ex' rest'"
proof (induction rest' arbitrary: rest)
  case Nil
  show ?case unfolding Nil by (rule ext) simp
next
  case (Cons st sts)
  have h1: "ex st = ex' st" using Cons.prems(2) by simp
  have h2: "statementsLoop ex sts = statementsLoop ex' sts"
    using Cons.IH Cons.prems by simp
  show ?case unfolding Cons.prems(1)
  proof (rule ext)
    fix r
    show "statementsLoop ex (st # sts) r = statementsLoop ex' (st # sts) r"
      using h1 h2 by simp
  qed
qed

fun visitStatement :: "stmt \<Rightarrow> DicenicValue M" where
  "visitStatement (IfStatement c thenBranch elseBranch) =
     andThen (visit c) (\<lambda>conditionValue.
       if toBoolean conditionValue then visitStatement thenBranch
       else (case elseBranch of
               Some st \<Rightarrow> visitStatement st
             | None \<Rightarrow> ret (numberValue (Fin 0))))"
| "visitStatement (WhileStatement lin col c body) =
     visitWhileStatement lin col (visit c) (visitStatement body)"
| "visitStatement (ExpressionStatement e) = visit e"
| "visitStatement (Block statements) =
     statementsLoop visitStatement statements (numberValue (Fin 0))"

definition visitProgram :: "stmt list \<Rightarrow> DicenicValue M" where
  "visitProgram statements = statementsLoop visitStatement statements (numberValue (Fin 0))"

definition interpretTree :: "stmt list \<Rightarrow> payload M" where
  "interpretTree tree =
     andThen (setLastValue (numberValue (Fin 0))) (\<lambda>_.
       andThen (visitProgram tree) (\<lambda>_. (\<lambda>s. (Returned (toString (lastValue s)), s))))"

section \<open>The entry point\<close>

text \<open>
  \<open>executeScript\<close> of \<open>index.ts\<close>, from the parse on: the parser's result is the tree and
  whether a syntax error was reported. The options give the context and the error
  configuration (defaults filled in). Whatever is thrown is caught.
\<close>

record ScriptResult =
  resultText :: payload
  errorMessages :: "jsstring list"
  warningMessages :: "jsstring list"
  success :: bool

definition initialState ::
  "ExecutionContext \<Rightarrow> ErrorHandlerConfig \<Rightarrow> (nat \<Rightarrow> rat) \<Rightarrow> istate" where
  "initialState c cfg rnd =
     \<lparr>ctx = c, errorHandler = newErrorHandler cfg, lastValue = numberValue (Fin 0),
      randoms = rnd, drawn = 0\<rparr>"

definition executeScript ::
  "bool \<Rightarrow> stmt list \<Rightarrow> ExecutionContext \<Rightarrow> ErrorHandlerConfig \<Rightarrow> (nat \<Rightarrow> rat) \<Rightarrow> ScriptResult" where
  "executeScript hasErrors tree c cfg rnd =
     (if hasErrors then
        \<lparr>resultText = Str [], errorMessages = [js ''Syntax error in script''],
         warningMessages = [], success = False\<rparr>
      else
        (case interpretTree tree (initialState c cfg rnd) of
           (Returned r, s) \<Rightarrow>
             (let errs = map getFormattedMessage (errors (errorHandler s))
              in \<lparr>resultText = r, errorMessages = errs,
                  warningMessages = warnings (errorHandler s), success = (errs = [])\<rparr>)
         | (Thrown x, s) \<Rightarrow>
             \<lparr>resultText = Str [], errorMessages = [exnMessage x],
              warningMessages = [], success = False\<rparr>))"

section \<open>Evaluation facts\<close>

text \<open>Facts that evaluate the model on the literals and scripts of the theorems below.\<close>

lemma js_Nil: "js [] = []"
  by (simp add: js_def)

lemma js_Cons: "js (c # cs) = of_char c # js cs"
  by (simp add: js_def)

lemmas js_simps = js_Nil js_Cons

lemma parseUnsigned_0: "parseUnsigned [48] = Some (Fin 0)"
  by code_simp

lemma parseUnsigned_1: "parseUnsigned [49] = Some (Fin 1)"
  by code_simp

lemma parseUnsigned_3: "parseUnsigned [51] = Some (Fin 3)"
  by code_simp

lemma parseUnsigned_5: "parseUnsigned [53] = Some (Fin 5)"
  by code_simp

lemma parseUnsigned_10: "parseUnsigned [49, 48] = Some (Fin 10)"
  by code_simp

lemma numToString_0: "numToString (Fin 0) = js ''0''"
  by code_simp

lemma numToString_1: "numToString (Fin 1) = js ''1''"
  by code_simp

lemma numToString_3: "numToString (Fin 3) = js ''3''"
  by code_simp

lemma numToString_5: "numToString (Fin 5) = js ''5''"
  by code_simp

lemma literal_0: "visitNumberLiteral (js ''0'') = numberValue (Fin 0)"
  by (simp add: visitNumberLiteral_def parseFloat_def trimStart_def isWhiteSpace_def
      parseUnsigned_0 js_simps)

lemma literal_1: "visitNumberLiteral (js ''1'') = numberValue (Fin 1)"
  by (simp add: visitNumberLiteral_def parseFloat_def trimStart_def isWhiteSpace_def
      parseUnsigned_1 js_simps)

lemma literal_3: "visitNumberLiteral (js ''3'') = numberValue (Fin 3)"
  by (simp add: visitNumberLiteral_def parseFloat_def trimStart_def isWhiteSpace_def
      parseUnsigned_3 js_simps)

lemma literal_5: "visitNumberLiteral (js ''5'') = numberValue (Fin 5)"
  by (simp add: visitNumberLiteral_def parseFloat_def trimStart_def isWhiteSpace_def
      parseUnsigned_5 js_simps)

lemma literal_10: "visitNumberLiteral (js ''10'') = numberValue (Fin 10)"
  by (simp add: visitNumberLiteral_def parseFloat_def trimStart_def isWhiteSpace_def
      parseUnsigned_10 js_simps)

lemmas literal_simps = literal_0 literal_1 literal_3 literal_5 literal_10

lemma toString_0: "toString (numberValue (Fin 0)) = Str (js ''0'')"
  by (simp add: toString_def numberValue_def numToString_0 del: numToString.simps)

lemma toString_1: "toString (numberValue (Fin 1)) = Str (js ''1'')"
  by (simp add: toString_def numberValue_def numToString_1 del: numToString.simps)

lemma toString_3: "toString (numberValue (Fin 3)) = Str (js ''3'')"
  by (simp add: toString_def numberValue_def numToString_3 del: numToString.simps)

lemma toString_5: "toString (numberValue (Fin 5)) = Str (js ''5'')"
  by (simp add: toString_def numberValue_def numToString_5 del: numToString.simps)

lemmas toString_simps = toString_0 toString_1 toString_3 toString_5

lemma toNumber_numberValue [simp]: "toNumber (numberValue n) = n"
  by (simp add: toNumber_def numberValue_def)

lemma toBoolean_numberValue [simp]: "toBoolean (numberValue n) = (\<not> numEq n (Fin 0))"
  by (simp add: toBoolean_def numberValue_def)

lemma toBoolean_boolNumber [simp]: "toBoolean (boolNumber b) = b"
  by (simp add: boolNumber_def)

lemma andThen_ret [simp]: "andThen (ret x) f = f x"
  by (simp add: andThen_def ret_def)

lemma andThen_throw [simp]: "andThen (throw e) f = throw e"
  by (simp add: andThen_def throw_def)

lemma andThen_Returned: "m s = (Returned x, s') \<Longrightarrow> andThen m f s = f x s'"
  by (simp add: andThen_def)


lemmas run_defs = executeScript_def interpretTree_def visitProgram_def andThen_def ret_def
  throw_def setLastValue_def initialState_def withHandler_def fromContext_def
  newErrorHandler_def

section \<open>Division and modulo by zero\<close>

text \<open>The script \<open>10 / 0\<close>.\<close>

definition divisionScript :: "stmt list" where
  "divisionScript =
     [ExpressionStatement
        (MultiplicativeExpression (NumberLiteral (js ''10''))
           [(DIVIDE, NumberLiteral (js ''0''))])]"

lemma zero_divisor_throws:
  assumes "operator = DIVIDE \<or> operator = MODULO"
    and "numEq (toNumber right) (Fin 0)"
  shows "performArithmeticOperation left right operator s = (Thrown addPublicWarningTypeError, s)"
  using assms by (auto simp: performArithmeticOperation_def Let_def throw_def)

lemma division_script_fails:
  "executeScript False divisionScript emptyContext DEFAULT_ERROR_CONFIG (\<lambda>_. 0) =
     \<lparr>resultText = Str [],
      errorMessages = [js ''this.errorHandler.addPublicWarning is not a function''],
      warningMessages = [], success = False\<rparr>"
  by (simp add: divisionScript_def run_defs literal_simps multiplicativeStep_def
      performArithmeticOperation_def addPublicWarningTypeError_def)

text \<open>
  C2. A division or a modulo whose right operand converts to the number 0 does not
  return \<open>Number(0)\<close> and records no warning: the call of the missing method throws, the
  state is left as it was, and the exception propagates. The script \<open>10 / 0\<close> ends in
  the failure record, with an empty result, the \<open>TypeError\<close>'s message as the only error,
  no warning, and \<open>success = false\<close>.
\<close>

theorem division_by_zero_throws:
  assumes "operator = DIVIDE \<or> operator = MODULO"
    and "numEq (toNumber right) (Fin 0)"
  shows "performArithmeticOperation left right operator s = (Thrown addPublicWarningTypeError, s)
         \<and> executeScript False divisionScript emptyContext DEFAULT_ERROR_CONFIG (\<lambda>_. 0) =
             \<lparr>resultText = Str [],
              errorMessages = [js ''this.errorHandler.addPublicWarning is not a function''],
              warningMessages = [], success = False\<rparr>"
  using zero_divisor_throws [OF assms] division_script_fails by simp

theorem division_by_zero_throws_witness:
  "(MODULO = DIVIDE \<or> MODULO = MODULO)
   \<and> numEq (toNumber (stringValue (js ''0''))) (Fin 0)
   \<and> performArithmeticOperation (numberValue (Fin 10)) (stringValue (js ''0'')) MODULO
         (initialState emptyContext DEFAULT_ERROR_CONFIG (\<lambda>_. 0)) =
       (Thrown addPublicWarningTypeError,
        initialState emptyContext DEFAULT_ERROR_CONFIG (\<lambda>_. 0))"
proof -
  have h: "numEq (toNumber (stringValue (js ''0''))) (Fin 0)"
    by (simp add: toNumber_def stringValue_def parseFloatOf_def parseFloat_def trimStart_def
        isWhiteSpace_def parseUnsigned_0 js_simps)
  show ?thesis
    using h division_by_zero_throws [of MODULO "stringValue (js ''0'')" "numberValue (Fin 10)"
        "initialState emptyContext DEFAULT_ERROR_CONFIG (\<lambda>_. 0)"]
    by simp
qed

section \<open>Short-circuit evaluation\<close>

text \<open>\<open>allFalsy es s\<close> is the state after visiting the operands \<open>es\<close> in order from \<open>s\<close>,
  when each of them returns a falsy value; \<open>allTruthy\<close> is its dual.\<close>

fun allFalsy :: "expr list \<Rightarrow> istate \<Rightarrow> istate option" where
  "allFalsy [] s = Some s"
| "allFalsy (e # es) s =
     (case visit e s of
        (Returned v, s') \<Rightarrow> if toBoolean v then None else allFalsy es s'
      | (Thrown x, s') \<Rightarrow> None)"

fun allTruthy :: "expr list \<Rightarrow> istate \<Rightarrow> istate option" where
  "allTruthy [] s = Some s"
| "allTruthy (e # es) s =
     (case visit e s of
        (Returned v, s') \<Rightarrow> if toBoolean v then allTruthy es s' else None
      | (Thrown x, s') \<Rightarrow> None)"

lemma orLoop_true: "orLoop ev post (boolNumber True) = ret (numberValue (Fin 1))"
  by (cases post) (simp_all add: boolNumber_def)

lemma andLoop_false: "andLoop ev post (boolNumber False) = ret (numberValue (Fin 0))"
  by (cases post) (simp_all add: boolNumber_def)

lemma orLoop_falsy_prefix:
  "\<not> toBoolean r \<Longrightarrow> allFalsy pre s = Some s1
   \<Longrightarrow> \<exists>r'. \<not> toBoolean r' \<and> orLoop visit (pre @ rest) r s = orLoop visit rest r' s1"
proof (induction pre arbitrary: r s)
  case Nil
  then show ?case by auto
next
  case (Cons e es)
  from Cons.prems(2) obtain v s' where v: "visit e s = (Returned v, s')" "\<not> toBoolean v"
    "allFalsy es s' = Some s1"
    by (auto split: prod.splits outcome.splits if_splits)
  have "orLoop visit ((e # es) @ rest) r s = orLoop visit (es @ rest) (boolNumber False) s'"
    using Cons.prems(1) v by (simp add: andThen_Returned)
  moreover have "\<exists>r'. \<not> toBoolean r' \<and>
      orLoop visit (es @ rest) (boolNumber False) s' = orLoop visit rest r' s1"
    using Cons.IH [of "boolNumber False" s'] v(3) by simp
  ultimately show ?case by auto
qed

lemma andLoop_truthy_prefix:
  "toBoolean r \<Longrightarrow> allTruthy pre s = Some s1
   \<Longrightarrow> \<exists>r'. toBoolean r' \<and> andLoop visit (pre @ rest) r s = andLoop visit rest r' s1"
proof (induction pre arbitrary: r s)
  case Nil
  then show ?case by auto
next
  case (Cons e es)
  from Cons.prems(2) obtain v s' where v: "visit e s = (Returned v, s')" "toBoolean v"
    "allTruthy es s' = Some s1"
    by (auto split: prod.splits outcome.splits if_splits)
  have "andLoop visit ((e # es) @ rest) r s = andLoop visit (es @ rest) (boolNumber True) s'"
    using Cons.prems(1) v by (simp add: andThen_Returned)
  moreover have "\<exists>r'. toBoolean r' \<and>
      andLoop visit (es @ rest) (boolNumber True) s' = andLoop visit rest r' s1"
    using Cons.IH [of "boolNumber True" s'] v(3) by simp
  ultimately show ?case by auto
qed

lemma or_short_circuit:
  assumes "rest \<noteq> []" and "e # rest = pre @ t # post" and "allFalsy pre s = Some s1"
    and "visit t s1 = (Returned v, s2)" and "toBoolean v"
  shows "visit (LogicalOrExpression e rest) s = (Returned (numberValue (Fin 1)), s2)"
proof (cases pre)
  case Nil
  with assms(2) have "t = e" "post = rest" by simp_all
  moreover from Nil assms(3) have "s1 = s" by simp
  moreover obtain p ps where "rest = p # ps" using assms(1) by (cases rest) auto
  ultimately show ?thesis using assms(4,5) by (simp add: andThen_Returned ret_def)
next
  case (Cons e' pre')
  with assms(2) have e: "e' = e" "rest = pre' @ t # post" by simp_all
  from Cons assms(3) e obtain v0 s0 where v0: "visit e s = (Returned v0, s0)" "\<not> toBoolean v0"
    "allFalsy pre' s0 = Some s1"
    by (auto split: prod.splits outcome.splits if_splits)
  obtain r' where r': "\<not> toBoolean r'"
    "orLoop visit (pre' @ t # post) v0 s0 = orLoop visit (t # post) r' s1"
    using orLoop_falsy_prefix [OF v0(2) v0(3)] by blast
  have "orLoop visit (t # post) r' s1 = orLoop visit post (boolNumber True) s2"
    using r'(1) assms(4,5) by (simp add: andThen_Returned)
  then show ?thesis using v0(1) r'(2) e by (simp add: andThen_Returned orLoop_true ret_def)
qed

lemma and_short_circuit:
  assumes "rest \<noteq> []" and "e # rest = pre @ t # post" and "allTruthy pre s = Some s1"
    and "visit t s1 = (Returned v, s2)" and "\<not> toBoolean v"
  shows "visit (LogicalAndExpression e rest) s = (Returned (numberValue (Fin 0)), s2)"
proof (cases pre)
  case Nil
  with assms(2) have "t = e" "post = rest" by simp_all
  moreover from Nil assms(3) have "s1 = s" by simp
  moreover obtain p ps where "rest = p # ps" using assms(1) by (cases rest) auto
  ultimately show ?thesis using assms(4,5) by (simp add: andThen_Returned ret_def)
next
  case (Cons e' pre')
  with assms(2) have e: "e' = e" "rest = pre' @ t # post" by simp_all
  from Cons assms(3) e obtain v0 s0 where v0: "visit e s = (Returned v0, s0)" "toBoolean v0"
    "allTruthy pre' s0 = Some s1"
    by (auto split: prod.splits outcome.splits if_splits)
  obtain r' where r': "toBoolean r'"
    "andLoop visit (pre' @ t # post) v0 s0 = andLoop visit (t # post) r' s1"
    using andLoop_truthy_prefix [OF v0(2) v0(3)] by blast
  have "andLoop visit (t # post) r' s1 = andLoop visit post (boolNumber False) s2"
    using r'(1) assms(4,5) by (simp add: andThen_Returned)
  then show ?thesis using v0(1) r'(2) e by (simp add: andThen_Returned andLoop_false ret_def)
qed

definition oneOverZero :: expr where
  "oneOverZero =
     Parenthesized (MultiplicativeExpression (NumberLiteral (js ''1''))
       [(DIVIDE, NumberLiteral (js ''0''))])"

definition orScript :: "stmt list" where
  "orScript = [ExpressionStatement (LogicalOrExpression (NumberLiteral (js ''1'')) [oneOverZero])]"

definition andScript :: "stmt list" where
  "andScript = [ExpressionStatement (LogicalAndExpression (NumberLiteral (js ''0'')) [oneOverZero])]"

lemma or_script_runs:
  "executeScript False orScript emptyContext DEFAULT_ERROR_CONFIG (\<lambda>_. 0) =
     \<lparr>resultText = Str (js ''1''), errorMessages = [], warningMessages = [], success = True\<rparr>"
  by (simp add: orScript_def run_defs literal_simps toString_simps)

lemma and_script_runs:
  "executeScript False andScript emptyContext DEFAULT_ERROR_CONFIG (\<lambda>_. 0) =
     \<lparr>resultText = Str (js ''0''), errorMessages = [], warningMessages = [], success = True\<rparr>"
  by (simp add: andScript_def run_defs literal_simps toString_simps)


text \<open>
  C4. In a logical-or chain (at least one \<open>||\<close>), when the operands before \<open>t\<close> have
  been visited and are falsy and \<open>t\<close> returns a truthy value, the chain returns
  \<open>Number(1)\<close> in the very state \<open>t\<close> left: the operands after \<open>t\<close> are not visited, so
  none of their writes, warnings, errors or dice rolls occur. Dually a logical-and chain
  returns \<open>Number(0)\<close> at its first falsy operand. The scripts \<open>1 || (1/0)\<close> and
  \<open>0 && (1/0)\<close> run to \<open>"1"\<close> and \<open>"0"\<close> with no warning.
\<close>

theorem logical_short_circuit:
  "(rest \<noteq> [] \<longrightarrow> e # rest = pre @ t # post \<longrightarrow> allFalsy pre s = Some s1
      \<longrightarrow> visit t s1 = (Returned v, s2) \<longrightarrow> toBoolean v
      \<longrightarrow> visit (LogicalOrExpression e rest) s = (Returned (numberValue (Fin 1)), s2))
   \<and> (rest \<noteq> [] \<longrightarrow> e # rest = pre @ t # post \<longrightarrow> allTruthy pre s = Some s1
      \<longrightarrow> visit t s1 = (Returned v, s2) \<longrightarrow> \<not> toBoolean v
      \<longrightarrow> visit (LogicalAndExpression e rest) s = (Returned (numberValue (Fin 0)), s2))
   \<and> executeScript False orScript emptyContext DEFAULT_ERROR_CONFIG (\<lambda>_. 0) =
       \<lparr>resultText = Str (js ''1''), errorMessages = [], warningMessages = [], success = True\<rparr>
   \<and> executeScript False andScript emptyContext DEFAULT_ERROR_CONFIG (\<lambda>_. 0) =
       \<lparr>resultText = Str (js ''0''), errorMessages = [], warningMessages = [], success = True\<rparr>"
  using or_short_circuit [of rest e pre t post s s1 v s2]
    and_short_circuit [of rest e pre t post s s1 v s2] or_script_runs and_script_runs
  by blast

theorem logical_short_circuit_witness:
  "allFalsy [NumberLiteral (js ''0'')] (initialState emptyContext DEFAULT_ERROR_CONFIG (\<lambda>_. 0)) =
     Some (initialState emptyContext DEFAULT_ERROR_CONFIG (\<lambda>_. 0))
   \<and> visit (NumberLiteral (js ''1'')) (initialState emptyContext DEFAULT_ERROR_CONFIG (\<lambda>_. 0)) =
       (Returned (numberValue (Fin 1)), initialState emptyContext DEFAULT_ERROR_CONFIG (\<lambda>_. 0))
   \<and> toBoolean (numberValue (Fin 1))
   \<and> visit (LogicalOrExpression (NumberLiteral (js ''0'')) [NumberLiteral (js ''1''), oneOverZero])
         (initialState emptyContext DEFAULT_ERROR_CONFIG (\<lambda>_. 0)) =
       (Returned (numberValue (Fin 1)), initialState emptyContext DEFAULT_ERROR_CONFIG (\<lambda>_. 0))
   \<and> allTruthy [NumberLiteral (js ''1'')] (initialState emptyContext DEFAULT_ERROR_CONFIG (\<lambda>_. 0)) =
       Some (initialState emptyContext DEFAULT_ERROR_CONFIG (\<lambda>_. 0))
   \<and> visit (NumberLiteral (js ''0'')) (initialState emptyContext DEFAULT_ERROR_CONFIG (\<lambda>_. 0)) =
       (Returned (numberValue (Fin 0)), initialState emptyContext DEFAULT_ERROR_CONFIG (\<lambda>_. 0))
   \<and> \<not> toBoolean (numberValue (Fin 0))
   \<and> visit (LogicalAndExpression (NumberLiteral (js ''1'')) [NumberLiteral (js ''0''), oneOverZero])
         (initialState emptyContext DEFAULT_ERROR_CONFIG (\<lambda>_. 0)) =
       (Returned (numberValue (Fin 0)), initialState emptyContext DEFAULT_ERROR_CONFIG (\<lambda>_. 0))"
proof -
  let ?s = "initialState emptyContext DEFAULT_ERROR_CONFIG (\<lambda>_. 0)"
  have f: "allFalsy [NumberLiteral (js ''0'')] ?s = Some ?s"
    by (simp add: literal_simps ret_def)
  have t: "allTruthy [NumberLiteral (js ''1'')] ?s = Some ?s"
    by (simp add: literal_simps ret_def)
  have v1: "visit (NumberLiteral (js ''1'')) ?s = (Returned (numberValue (Fin 1)), ?s)"
    by (simp add: literal_simps ret_def)
  have v0: "visit (NumberLiteral (js ''0'')) ?s = (Returned (numberValue (Fin 0)), ?s)"
    by (simp add: literal_simps ret_def)
  have o: "visit (LogicalOrExpression (NumberLiteral (js ''0''))
             [NumberLiteral (js ''1''), oneOverZero]) ?s = (Returned (numberValue (Fin 1)), ?s)"
    using logical_short_circuit [where e = "NumberLiteral (js ''0'')"
        and rest = "[NumberLiteral (js ''1''), oneOverZero]" and pre = "[NumberLiteral (js ''0'')]"
        and t = "NumberLiteral (js ''1'')" and post = "[oneOverZero]" and s = ?s and ?s1.0 = ?s
        and v = "numberValue (Fin 1)" and ?s2.0 = ?s] f v1
    by simp
  have a: "visit (LogicalAndExpression (NumberLiteral (js ''1''))
             [NumberLiteral (js ''0''), oneOverZero]) ?s = (Returned (numberValue (Fin 0)), ?s)"
    using logical_short_circuit [where e = "NumberLiteral (js ''1'')"
        and rest = "[NumberLiteral (js ''0''), oneOverZero]" and pre = "[NumberLiteral (js ''1'')]"
        and t = "NumberLiteral (js ''0'')" and post = "[oneOverZero]" and s = ?s and ?s1.0 = ?s
        and v = "numberValue (Fin 0)" and ?s2.0 = ?s] t v0
    by simp
  show ?thesis using f t v1 v0 o a by simp
qed

section \<open>An \<open>if\<close> that runs no branch\<close>

definition ifScript :: "stmt list" where
  "ifScript =
     [ExpressionStatement (NumberLiteral (js ''5'')),
      IfStatement (NumberLiteral (js ''0'')) (ExpressionStatement (NumberLiteral (js ''3''))) None]"

lemma statementsLoop_append:
  "statementsLoop ex (xs @ ys) r s =
     (case statementsLoop ex xs r s of
        (Returned r', s') \<Rightarrow> statementsLoop ex ys r' s'
      | (Thrown x, s') \<Rightarrow> (Thrown x, s'))"
proof (induction xs arbitrary: r s)
  case Nil
  show ?case by (simp add: ret_def)
next
  case (Cons a xs)
  show ?case
    by (simp add: andThen_def setLastValue_def Cons.IH split: prod.splits outcome.splits)
qed


text \<open>
  The script \<open>5  if (0) 3\<close>: after its first statement the \<open>lastValue\<close> is \<open>Number(5)\<close>;
  the \<open>if\<close> runs no branch, returns the default \<open>Number(0)\<close>, and \<open>visitProgram\<close> stores
  that: the script's result is \<open>"0"\<close>, not \<open>"5"\<close>.
\<close>

theorem if_without_else_counterexample:
  "visitProgram (take 1 ifScript) (initialState emptyContext DEFAULT_ERROR_CONFIG (\<lambda>_. 0)) =
     (Returned (numberValue (Fin 5)),
      (initialState emptyContext DEFAULT_ERROR_CONFIG (\<lambda>_. 0))\<lparr>lastValue := numberValue (Fin 5)\<rparr>)
   \<and> visitProgram ifScript (initialState emptyContext DEFAULT_ERROR_CONFIG (\<lambda>_. 0)) =
     (Returned (numberValue (Fin 0)),
      (initialState emptyContext DEFAULT_ERROR_CONFIG (\<lambda>_. 0))\<lparr>lastValue := numberValue (Fin 0)\<rparr>)
   \<and> executeScript False ifScript emptyContext DEFAULT_ERROR_CONFIG (\<lambda>_. 0) =
     \<lparr>resultText = Str (js ''0''), errorMessages = [], warningMessages = [], success = True\<rparr>
   \<and> Str (js ''0'') \<noteq> Str (js ''5'')"
proof -
  have "Str (js ''0'') \<noteq> Str (js ''5'')"
    by (simp add: js_simps)
  then show ?thesis
    by (simp add: ifScript_def run_defs literal_simps toString_simps)
qed


text \<open>
  C8, amended. An \<open>if\<close> statement whose condition is falsy and which has no \<open>else\<close>
  returns the default value \<open>Number(0)\<close>, in the state its condition left; the loop over
  the statements of the program stores that as the \<open>lastValue\<close>, so a script that ends in
  such an \<open>if\<close> returns \<open>"0"\<close> whatever its preceding statements returned.
\<close>

theorem if_without_else_yields_zero:
  assumes "visitProgram before (s0\<lparr>lastValue := numberValue (Fin 0)\<rparr>) = (Returned r, s)"
    and "visit c s = (Returned v, s1)"
    and "\<not> toBoolean v"
  shows "visitStatement (IfStatement c thenBranch None) s = (Returned (numberValue (Fin 0)), s1)
         \<and> interpretTree (before @ [IfStatement c thenBranch None]) s0 =
             (Returned (Str (js ''0'')), s1\<lparr>lastValue := numberValue (Fin 0)\<rparr>)"
proof
  show i: "visitStatement (IfStatement c thenBranch None) s = (Returned (numberValue (Fin 0)), s1)"
    using assms(2,3) by (simp add: andThen_Returned ret_def)
  show "interpretTree (before @ [IfStatement c thenBranch None]) s0 =
          (Returned (Str (js ''0'')), s1\<lparr>lastValue := numberValue (Fin 0)\<rparr>)"
    using assms(1) i
    by (simp add: interpretTree_def visitProgram_def statementsLoop_append andThen_def
        setLastValue_def ret_def toString_simps del: visitStatement.simps)
qed

theorem if_without_else_yields_zero_witness:
  "visitProgram (take 1 ifScript)
     ((initialState emptyContext DEFAULT_ERROR_CONFIG (\<lambda>_. 0))\<lparr>lastValue := numberValue (Fin 0)\<rparr>) =
     (Returned (numberValue (Fin 5)),
      (initialState emptyContext DEFAULT_ERROR_CONFIG (\<lambda>_. 0))\<lparr>lastValue := numberValue (Fin 5)\<rparr>)
   \<and> \<not> toBoolean (numberValue (Fin 0))
   \<and> interpretTree ifScript (initialState emptyContext DEFAULT_ERROR_CONFIG (\<lambda>_. 0)) =
       (Returned (Str (js ''0'')),
        (initialState emptyContext DEFAULT_ERROR_CONFIG (\<lambda>_. 0))\<lparr>lastValue := numberValue (Fin 0)\<rparr>)"
proof -
  let ?s = "initialState emptyContext DEFAULT_ERROR_CONFIG (\<lambda>_. 0)"
  have b: "visitProgram (take 1 ifScript) (?s\<lparr>lastValue := numberValue (Fin 0)\<rparr>) =
             (Returned (numberValue (Fin 5)), ?s\<lparr>lastValue := numberValue (Fin 5)\<rparr>)"
    by (simp add: ifScript_def run_defs literal_simps)
  have c: "visit (NumberLiteral (js ''0'')) (?s\<lparr>lastValue := numberValue (Fin 5)\<rparr>) =
             (Returned (numberValue (Fin 0)), ?s\<lparr>lastValue := numberValue (Fin 5)\<rparr>)"
    by (simp add: literal_simps ret_def)
  have n: "\<not> toBoolean (numberValue (Fin 0))" by simp
  have "take 1 ifScript @ [IfStatement (NumberLiteral (js ''0''))
          (ExpressionStatement (NumberLiteral (js ''3''))) None] = ifScript"
    by (simp add: ifScript_def)
  then show ?thesis
    using if_without_else_yields_zero [OF b c n, of "ExpressionStatement (NumberLiteral (js ''3''))"]
      b n
    by simp
qed

section \<open>Interpolation bodies\<close>











section \<open>Writes to read-only special variables\<close>

text \<open>The error that \<open>performAssignment\<close> hands to \<open>handleVariableAccessError\<close> when the
  target's prefix is not writable.\<close>

definition writeError :: "jsstring \<Rightarrow> DicenicError" where
  "writeError text =
     \<lparr>message = js ''Cannot write to read-only variable: '' @ text, line = - 1, column = - 1,
      detail = VariableAccessDetail text WriteAccess\<rparr>"

text \<open>The statement \<open>$rname = 3\<close>, and the script that repeats it eleven times.\<close>

definition deniedWrite :: stmt where
  "deniedWrite =
     ExpressionStatement
       (AssignmentExpression (SpecialVariable (js ''$rname'')) ASSIGN (NumberLiteral (js ''3'')))"

definition deniedWritesScript :: "stmt list" where
  "deniedWritesScript =
     [deniedWrite, deniedWrite, deniedWrite, deniedWrite, deniedWrite, deniedWrite,
      deniedWrite, deniedWrite, deniedWrite, deniedWrite, deniedWrite]"

lemma andThen_apply:
  "andThen m f s = (case m s of (Returned x, s') \<Rightarrow> f x s' | (Thrown e, s') \<Rightarrow> (Thrown e, s'))"
  by (simp add: andThen_def)

lemma storeFinalValue_denied:
  assumes "wellFormedSpecial text"
    and "take 1 (drop 1 text) = js ''r'' \<or> take 1 (drop 1 text) = js ''s''"
  shows "storeFinalValue (SpecialVariable text) fv s =
     (if maxErrors (config (errorHandler s)) < int (length (errors (errorHandler s))) + 1
      then Thrown (DicenicErr (tooManyErrors (length (errors (errorHandler s)) + 1)))
      else if \<not> enableRecovery (config (errorHandler s))
      then Thrown (DicenicErr (writeError text))
      else Returned fv,
      s\<lparr>errorHandler := (errorHandler s)
           \<lparr>errors := errors (errorHandler s) @ [writeError text]\<rparr>\<rparr>)"
proof -
  have c: "\<not> canWriteSpecialVariable (take 1 (drop 1 text))"
    using assms(2) by (auto simp add: canWriteSpecialVariable_def js_simps)
  show ?thesis
    using assms(1) c
    by (simp add: storeFinalValue_def writeDenied_def handleVariableAccessError_def
        recordOrThrow_def addError_def withHandler_def andThen_def ret_def Let_def
        writeError_def)
qed

lemma performArithmeticOperation_frame:
  "performArithmeticOperation l r operator s = (x, s') \<Longrightarrow> s' = s"
  by (cases operator;
      auto simp add: performArithmeticOperation_def Let_def ret_def throw_def split: if_splits)

lemma finalValueOf_special_frame:
  assumes "finalValueOf (SpecialVariable text) rv operator s = (x, s')"
  shows "s' = s"
proof (cases "operator = ASSIGN")
  case True
  then show ?thesis using assms by (simp add: finalValueOf_def ret_def)
next
  case False
  obtain y where y: "currentValueOf (SpecialVariable text) s = (y, s)"
    by (cases "wellFormedSpecial text"; simp add: currentValueOf_def fromContext_def ret_def)
  show ?thesis
  proof (cases y)
    case (Thrown e)
    then show ?thesis using assms False y by (simp add: finalValueOf_def andThen_def)
  next
    case (Returned cv)
    then have "compoundValue operator cv rv s = (x, s')"
      using assms False y by (simp add: finalValueOf_def andThen_def)
    then show ?thesis
      using False performArithmeticOperation_frame
      by (cases operator; simp add: compoundValue_def; blast)
  qed
qed

lemma denied_assignment:
  assumes "wellFormedSpecial text"
    and "take 1 (drop 1 text) = js ''r'' \<or> take 1 (drop 1 text) = js ''s''"
    and "visit rhs s = (Returned rv, s1)"
    and "finalValueOf (SpecialVariable text) rv operator s1 = (Returned fv, s2)"
  shows "visit (AssignmentExpression (SpecialVariable text) operator rhs) s =
           (if maxErrors (config (errorHandler s1)) < int (length (errors (errorHandler s1))) + 1
            then Thrown (DicenicErr (tooManyErrors (length (errors (errorHandler s1)) + 1)))
            else if \<not> enableRecovery (config (errorHandler s1))
            then Thrown (DicenicErr (writeError text))
            else Returned fv,
            s1\<lparr>errorHandler := (errorHandler s1)
                 \<lparr>errors := errors (errorHandler s1) @ [writeError text]\<rparr>\<rparr>)"
proof -
  have f: "s2 = s1"
    by (rule finalValueOf_special_frame [OF assms(4)])
  have "visit (AssignmentExpression (SpecialVariable text) operator rhs) s =
        storeFinalValue (SpecialVariable text) fv s2"
    using assms(3,4) by (simp add: andThen_Returned performAssignment_def)
  then show ?thesis
    using f by (simp add: storeFinalValue_denied [OF assms(1,2)])
qed

lemma rname_wellFormed:
  "wellFormedSpecial (js ''$rname'')" "take 1 (drop 1 (js ''$rname'')) = js ''r''"
  by (simp_all add: wellFormedSpecial_def js_simps)

lemma deniedWrite_step:
  "visitStatement deniedWrite s =
     (if maxErrors (config (errorHandler s)) < int (length (errors (errorHandler s))) + 1
      then Thrown (DicenicErr (tooManyErrors (length (errors (errorHandler s)) + 1)))
      else if \<not> enableRecovery (config (errorHandler s))
      then Thrown (DicenicErr (writeError (js ''$rname'')))
      else Returned (numberValue (Fin 3)),
      s\<lparr>errorHandler := (errorHandler s)
           \<lparr>errors := errors (errorHandler s) @ [writeError (js ''$rname'')]\<rparr>\<rparr>)"
proof -
  have v: "visit (NumberLiteral (js ''3'')) s = (Returned (numberValue (Fin 3)), s)"
    by (simp add: ret_def literal_simps)
  have f: "finalValueOf (SpecialVariable (js ''$rname'')) (numberValue (Fin 3)) ASSIGN s =
           (Returned (numberValue (Fin 3)), s)"
    by (simp add: finalValueOf_def ret_def)
  show ?thesis
    using denied_assignment [OF rname_wellFormed(1) disjI1 [OF rname_wellFormed(2)] v f]
    by (simp add: deniedWrite_def)
qed

lemma natDigits_11: "natDigits 11 = [49, 49]"
  by code_simp

lemma tooManyErrors_11:
  "message (tooManyErrors 11) = js ''Too many errors (11), stopping execution''"
  by (simp add: tooManyErrors_def natDigits_11 js_simps)

lemma eleven: "Suc (Suc (Suc (Suc (Suc (Suc (Suc (Suc (Suc (Suc (Suc 0)))))))))) = 11"
  by simp

lemma deniedWrites_run:
  "\<exists>s'. interpretTree deniedWritesScript
               (initialState emptyContext DEFAULT_ERROR_CONFIG (\<lambda>_. 0)) =
             (Thrown (DicenicErr (tooManyErrors 11)), s')
        \<and> length (errors (errorHandler s')) = 11
        \<and> maxErrors (config (errorHandler s')) = 10"
  by (simp add: deniedWritesScript_def interpretTree_def visitProgram_def andThen_apply
      setLastValue_def initialState_def newErrorHandler_def deniedWrite_step
      DEFAULT_ERROR_CONFIG_def eleven
      cong: prod.case_cong_weak outcome.case_cong_weak)

theorem readonly_write_counterexample:
  "enableRecovery DEFAULT_ERROR_CONFIG
   \<and> executeScript False deniedWritesScript emptyContext DEFAULT_ERROR_CONFIG (\<lambda>_. 0) =
       \<lparr>resultText = Str [],
        errorMessages = [js ''Too many errors (11), stopping execution''],
        warningMessages = [], success = False\<rparr>"
proof -
  obtain s' where "interpretTree deniedWritesScript
               (initialState emptyContext DEFAULT_ERROR_CONFIG (\<lambda>_. 0)) =
             (Thrown (DicenicErr (tooManyErrors 11)), s')"
    using deniedWrites_run by blast
  then show ?thesis
    by (simp add: executeScript_def tooManyErrors_11 DEFAULT_ERROR_CONFIG_def)
qed

text \<open>
  C1. When evaluation reaches an assignment to a well-formed special variable with prefix
  \<open>r\<close> or \<open>s\<close>, its right-hand side has been evaluated and the would-be value computed,
  the assignment changes nothing but the handler's error list, to which it appends one
  VariableAccess error (so every pool of the context is as it was). Its outcome is: the
  Runtime error of the ceiling when that append makes the list longer than \<open>maxErrors\<close>
  (whatever the recovery setting); otherwise the VariableAccess error, thrown, when
  recovery is disabled; otherwise the would-be value.
\<close>

theorem readonly_write_denied:
  assumes "wellFormedSpecial text"
    and "take 1 (drop 1 text) = js ''r'' \<or> take 1 (drop 1 text) = js ''s''"
    and "visit rhs s = (Returned rv, s1)"
    and "finalValueOf (SpecialVariable text) rv operator s1 = (Returned fv, s2)"
  shows "visit (AssignmentExpression (SpecialVariable text) operator rhs) s =
           (if maxErrors (config (errorHandler s1)) < int (length (errors (errorHandler s1))) + 1
            then Thrown (DicenicErr (tooManyErrors (length (errors (errorHandler s1)) + 1)))
            else if \<not> enableRecovery (config (errorHandler s1))
            then Thrown (DicenicErr (writeError text))
            else Returned fv,
            s1\<lparr>errorHandler := (errorHandler s1)
                 \<lparr>errors := errors (errorHandler s1) @ [writeError text]\<rparr>\<rparr>)
         \<and> s2 = s1"
  using denied_assignment [OF assms] finalValueOf_special_frame [OF assms(4)] by simp

theorem readonly_write_denied_witness:
  "wellFormedSpecial (js ''$rname'')
   \<and> take 1 (drop 1 (js ''$rname'')) = js ''r''
   \<and> visit (NumberLiteral (js ''3'')) (initialState emptyContext DEFAULT_ERROR_CONFIG (\<lambda>_. 0)) =
       (Returned (numberValue (Fin 3)), initialState emptyContext DEFAULT_ERROR_CONFIG (\<lambda>_. 0))
   \<and> finalValueOf (SpecialVariable (js ''$rname'')) (numberValue (Fin 3)) ASSIGN
        (initialState emptyContext DEFAULT_ERROR_CONFIG (\<lambda>_. 0)) =
       (Returned (numberValue (Fin 3)), initialState emptyContext DEFAULT_ERROR_CONFIG (\<lambda>_. 0))
   \<and> visit (AssignmentExpression (SpecialVariable (js ''$rname'')) ASSIGN (NumberLiteral (js ''3'')))
        (initialState emptyContext DEFAULT_ERROR_CONFIG (\<lambda>_. 0)) =
       (Returned (numberValue (Fin 3)),
        (initialState emptyContext DEFAULT_ERROR_CONFIG (\<lambda>_. 0))
          \<lparr>errorHandler := (newErrorHandler DEFAULT_ERROR_CONFIG)
             \<lparr>errors := [writeError (js ''$rname'')]\<rparr>\<rparr>)"
proof -
  let ?s = "initialState emptyContext DEFAULT_ERROR_CONFIG (\<lambda>_. 0)"
  have v: "visit (NumberLiteral (js ''3'')) ?s = (Returned (numberValue (Fin 3)), ?s)"
    by (simp add: ret_def literal_simps)
  have f: "finalValueOf (SpecialVariable (js ''$rname'')) (numberValue (Fin 3)) ASSIGN ?s =
           (Returned (numberValue (Fin 3)), ?s)"
    by (simp add: finalValueOf_def ret_def)
  have t: "visit (AssignmentExpression (SpecialVariable (js ''$rname'')) ASSIGN
             (NumberLiteral (js ''3''))) ?s =
       (Returned (numberValue (Fin 3)),
        ?s\<lparr>errorHandler := (newErrorHandler DEFAULT_ERROR_CONFIG)
             \<lparr>errors := [writeError (js ''$rname'')]\<rparr>\<rparr>)"
    using readonly_write_denied
            [OF rname_wellFormed(1) disjI1 [OF rname_wellFormed(2)] v f]
    by (simp add: initialState_def newErrorHandler_def DEFAULT_ERROR_CONFIG_def
        del: visit.simps)
  show ?thesis
    using rname_wellFormed v f t by (simp del: visit.simps)
qed

section \<open>Assignment to an invalid target\<close>












section \<open>Numeric payloads\<close>

subsection \<open>Rounding stays finite below \<open>2^53\<close>\<close>

lemma pow2_pos: "0 < pow2 k"
  by (simp add: pow2_def)

lemma pow2_le_one: "k \<le> 0 \<Longrightarrow> pow2 k \<le> 1"
  by (simp add: pow2_def divide_le_eq)

lemma pow2_ge: "53 \<le> k \<Longrightarrow> 2 ^ 53 \<le> pow2 k"
proof -
  assume k: "53 \<le> k"
  then have "53 \<le> nat k" by simp
  then have "(2::rat) ^ 53 \<le> 2 ^ nat k" by (intro power_increasing) simp_all
  then show ?thesis using k by (simp add: pow2_def)
qed

lemma roundHalfEven_le: "of_int (roundHalfEven m) \<le> m + 1 / 2"
proof -
  have f: "of_int \<lfloor>m\<rfloor> \<le> m" by (rule of_int_floor_le)
  have a: "of_int \<lfloor>m\<rfloor> \<le> m + 1 / 2" using f by linarith
  have b: "\<not> m - of_int \<lfloor>m\<rfloor> < 1 / 2 \<Longrightarrow> of_int (\<lfloor>m\<rfloor> + 1) \<le> m + 1 / 2"
    by simp
  show ?thesis
    unfolding roundHalfEven_def Let_def using a b by (simp del: of_int_add)
qed

lemma roundHalfEven_nonneg: "0 \<le> m \<Longrightarrow> 0 \<le> roundHalfEven m"
  by (auto simp add: roundHalfEven_def Let_def)

lemma ilog2_le:
  assumes "0 < a" and "a < 2 ^ 53"
  shows "ilog2 a \<le> 52"
proof -
  obtain p q where pq: "quotient_of a = (p, q)" by (cases "quotient_of a")
  have q: "0 < q" using pq by (rule quotient_of_denom_pos)
  have a: "a = of_int p / of_int q" using pq by (rule quotient_of_div)
  have p: "0 < p" using assms(1) q a by (simp add: zero_less_divide_iff)
  define d where "d = bitlen p - bitlen q"
  have i: "ilog2 a = (if pow2 d \<le> a then d else d - 1)"
    by (simp add: ilog2_def pq d_def Let_def)
  show ?thesis
  proof (cases "pow2 d \<le> a")
    case True
    have "d < 53"
    proof (rule ccontr)
      assume "\<not> d < 53"
      then have "2 ^ 53 \<le> pow2 d" by (intro pow2_ge) simp
      then show False using True assms(2) by simp
    qed
    then show ?thesis using i True by simp
  next
    case False
    have "d - 1 < 53"
    proof (rule ccontr)
      assume n: "\<not> d - 1 < 53"
      then have g: "2 ^ 53 \<le> pow2 (d - 1)" by (intro pow2_ge) simp
      have b1: "2 ^ nat (bitlen p - 1) \<le> p" using bitlen_bounds [OF p] by simp
      have b2: "q < 2 ^ nat (bitlen q)" using bitlen_bounds [OF q] by simp
      have e: "nat (bitlen p - 1) = nat (d - 1) + nat (bitlen q)"
        using n bitlen_nonneg [of q] by (simp add: d_def nat_add_distrib [symmetric])
      have "(2::int) ^ nat (d - 1) * q \<le> 2 ^ nat (d - 1) * 2 ^ nat (bitlen q)"
        using b2 by (intro mult_left_mono) simp_all
      also have "\<dots> = 2 ^ nat (bitlen p - 1)" by (simp add: e power_add)
      finally have "(2::int) ^ nat (d - 1) * q \<le> p" using b1 by simp
      then have "of_int ((2::int) ^ nat (d - 1) * q) \<le> (of_int p :: rat)"
        by (simp only: of_int_le_iff)
      then have "(2::rat) ^ nat (d - 1) * of_int q \<le> of_int p" by simp
      then have "(2::rat) ^ nat (d - 1) \<le> a"
        using q by (simp add: a pos_le_divide_eq)
      moreover have "pow2 (d - 1) = 2 ^ nat (d - 1)" using n by (simp add: pow2_def)
      ultimately show False using g assms(2) by simp
    qed
    then show ?thesis using i False by simp
  qed
qed

lemma toDouble_bounded:
  assumes "0 \<le> x" and "x < 2 ^ 53"
  shows "\<exists>y. toDouble x = Fin y \<and> 0 \<le> y \<and> y \<le> x + 1 / 2"
proof (cases "x = 0")
  case True
  then show ?thesis by (simp add: toDouble_def)
next
  case False
  then have x: "0 < x" using assms(1) by simp
  define e where "e = max (ilog2 x) (- 1022)"
  define u where "u = pow2 (e - 52)"
  define m where "m = roundHalfEven (x / u)"
  have e: "e \<le> 52" using ilog2_le [OF x assms(2)] by (simp add: e_def)
  have u: "0 < u" "u \<le> 1" using e by (simp_all add: u_def pow2_pos pow2_le_one)
  have m0: "0 \<le> m" using x u by (simp add: m_def roundHalfEven_nonneg)
  have "of_int m \<le> x / u + 1 / 2" unfolding m_def by (rule roundHalfEven_le)
  then have "of_int m * u \<le> (x / u + 1 / 2) * u"
    using u(1) by (intro mult_right_mono) simp_all
  also have "\<dots> = x + u / 2" using u(1) by (simp add: field_simps)
  also have "\<dots> \<le> x + 1 / 2" using u(2) by simp
  finally have b: "of_int m * u \<le> x + 1 / 2" .
  have t: "toDouble x = Fin (of_int m * u)"
    using x e by (simp add: toDouble_def Let_def e_def [symmetric] u_def [symmetric]
        m_def [symmetric])
  show ?thesis using t b m0 u(1) by simp
qed

subsection \<open>Dice rolls are finite\<close>

lemma validate_bounds:
  assumes "validateDiceExpression count sides"
  shows "\<exists>c q. count = Fin c \<and> sides = Fin q \<and> 0 < c \<and> c \<le> 1000 \<and> 0 < q \<and> q \<le> 10000"
  using assms
  by (cases count; cases sides;
      simp add: validateDiceExpression_def numLessEq_def MAX_DICE_COUNT_def MAX_DICE_SIDES_def
        split: if_splits)

lemma rollLoop_finite:
  assumes "\<forall>k. 0 \<le> randoms s k \<and> randoms s k < 1"
    and "0 < q" and "0 \<le> t" and "t + of_nat n * (q + 3) < 2 ^ 53"
  shows "\<exists>t'. fst (rollLoop n (Fin q) (Fin t) s) = Fin t' \<and> 0 \<le> t'"
  using assms
proof (induction n arbitrary: t s)
  case 0
  then show ?case by simp
next
  case (Suc n)
  let ?r = "randoms s (drawn s)"
  have r: "0 \<le> ?r" "?r < 1" using Suc.prems(1) by simp_all
  have n0: "0 \<le> (of_nat n :: rat) * (q + 3)" using Suc.prems(2) by simp
  have bound: "t + q + 3 + of_nat n * (q + 3) < 2 ^ 53"
    using Suc.prems(4) by (simp add: algebra_simps)
  have x1: "0 \<le> ?r * q" "?r * q < q"
    using r Suc.prems(2) by simp_all
  have "?r * q < 2 ^ 53" using x1(2) bound n0 Suc.prems(3) by linarith
  then obtain y1 where y1: "toDouble (?r * q) = Fin y1" "0 \<le> y1" "y1 \<le> ?r * q + 1 / 2"
    using toDouble_bounded [OF x1(1)] by blast
  define k :: rat where "k = of_int \<lfloor>y1\<rfloor>"
  have k: "0 \<le> k" "k \<le> y1" using y1(2) by (simp_all add: k_def)
  have "k + 1 < 2 ^ 53" using k y1(3) x1(2) bound n0 Suc.prems(3) by linarith
  then obtain y2 where y2: "toDouble (k + 1) = Fin y2" "0 \<le> y2" "y2 \<le> k + 1 + 1 / 2"
    using toDouble_bounded [of "k + 1"] k(1) by auto
  have "t + y2 < 2 ^ 53" using y2(3) k y1(3) x1(2) bound n0 by linarith
  then obtain t' where t': "toDouble (t + y2) = Fin t'" "0 \<le> t'" "t' \<le> t + y2 + 1 / 2"
    using toDouble_bounded [of "t + y2"] Suc.prems(3) y2(2) by auto
  have step: "rollLoop (Suc n) (Fin q) (Fin t) s =
              rollLoop n (Fin q) (Fin t') (s\<lparr>drawn := drawn s + 1\<rparr>)"
    by (simp add: y1(1) k_def [symmetric] y2(1) t'(1))
  have b': "t' + of_nat n * (q + 3) < 2 ^ 53"
    using t'(3) y2(3) k y1(3) x1(2) bound by linarith
  show ?case
    unfolding step
    using Suc.IH [of "s\<lparr>drawn := drawn s + 1\<rparr>" t'] Suc.prems(1,2) t'(2) b' by simp
qed

lemma calculate_finite:
  assumes "\<forall>k. 0 \<le> randoms s k \<and> randoms s k < 1"
    and "calculate count sides s = (Returned r, s')"
  shows "\<exists>t. r = Fin t \<and> 0 \<le> t"
proof -
  have v: "validateDiceExpression count sides"
    using assms(2) by (auto simp add: calculate_def throw_def split: if_splits)
  then obtain c q where cq: "count = Fin c" "sides = Fin q" "0 < c" "c \<le> 1000" "0 < q"
      "q \<le> 10000"
    using validate_bounds by blast
  define n where "n = iterations count"
  have "\<lceil>c\<rceil> \<le> 1000" using cq(4) by (simp add: ceiling_le_iff)
  then have "nat \<lceil>c\<rceil> \<le> 1000" by linarith
  then have "n \<le> 1000" by (simp add: n_def iterations_def cq(1))
  then have "(of_nat n :: rat) \<le> 1000" by simp
  then have "(of_nat n :: rat) * (q + 3) \<le> 1000 * 10003"
    using cq(5,6) by (intro mult_mono) simp_all
  then have b: "0 + of_nat n * (q + 3) < 2 ^ 53" by simp
  have r: "r = fst (rollLoop n (Fin q) (Fin 0) s)"
    using assms(2) v by (simp add: calculate_def n_def cq(2) split: prod.splits)
  show ?thesis
    using rollLoop_finite [OF assms(1) cq(5) order_refl b] r by simp
qed

lemma dice_finite:
  assumes "\<forall>k. 0 \<le> randoms s k \<and> randoms s k < 1"
    and "visitDiceExpression dice lin col s = (Returned d, s')"
  shows "\<exists>t. vvalue d = Num (Fin t) \<and> 0 \<le> t"
proof (cases "evaluateDiceExpression dice s")
  case (Pair o1 s1)
  show ?thesis
  proof (cases o1)
    case (Returned v)
    then have d: "d = v" using assms(2) Pair by (simp add: visitDiceExpression_def)
    obtain count sides where p: "parseDiceExpression dice = Returned (count, sides)"
      using Pair Returned
      by (cases "parseDiceExpression dice") (auto simp add: evaluateDiceExpression_def throw_def)
    obtain r where r: "calculate count sides s = (Returned r, s1)"
      "v = \<lparr>vtype = DICE_EXPRESSION, vvalue = Num r\<rparr>"
      using Pair Returned p
      by (cases "calculate count sides s")
         (auto simp add: evaluateDiceExpression_def andThen_def ret_def split: outcome.splits)
    show ?thesis using calculate_finite [OF assms(1) r(1)] r(2) d by auto
  next
    case (Thrown x)
    then have "d = numberValue (Fin 0)"
      using assms(2) Pair
      by (auto simp add: visitDiceExpression_def withHandler_def handleDiceError_def Let_def
          addError_def split: if_splits prod.splits outcome.splits)
    then show ?thesis by (simp add: numberValue_def)
  qed
qed

subsection \<open>What each operation stores\<close>

lemma numberValue_inject: "(numberValue a = numberValue b) = (a = b)"
  by (simp add: numberValue_def)

lemma not_NaN: "\<not> isNaN n \<Longrightarrow> n \<noteq> NaN"
  by (cases n) simp_all

lemma toDouble_not_NaN: "\<not> isNaN (toDouble q)"
  by (simp add: toDouble_def Let_def)

lemma numAdd_finite: "isFiniteNum a \<Longrightarrow> isFiniteNum b \<Longrightarrow> \<not> isNaN (numAdd a b)"
  by (cases a; cases b; simp add: toDouble_not_NaN)

lemma numSub_finite: "isFiniteNum a \<Longrightarrow> isFiniteNum b \<Longrightarrow> \<not> isNaN (numSub a b)"
  by (cases a; cases b; simp add: numSub_def toDouble_not_NaN)

lemma numMul_finite: "isFiniteNum a \<Longrightarrow> isFiniteNum b \<Longrightarrow> \<not> isNaN (numMul a b)"
  by (cases a; cases b; simp add: toDouble_not_NaN)

lemma numDiv_finite:
  "isFiniteNum a \<Longrightarrow> isFiniteNum b \<Longrightarrow> \<not> numEq b (Fin 0) \<Longrightarrow> \<not> isNaN (numDiv a b)"
  by (cases a; cases b; simp add: toDouble_not_NaN)

lemma numMod_finite:
  "isFiniteNum a \<Longrightarrow> isFiniteNum b \<Longrightarrow> \<not> numEq b (Fin 0) \<Longrightarrow> \<not> isNaN (numMod a b)"
  by (cases a; cases b; simp add: Let_def)

lemma toNumber_string: "vtype w = STRING \<Longrightarrow> \<not> isNaN (toNumber w)"
  by (simp add: toNumber_def Let_def)

lemma toNumber_failure:
  "vtype w = STRING \<Longrightarrow> isNaN (parseFloatOf (vvalue w)) \<Longrightarrow> toNumber w = Fin 0"
  by (simp add: toNumber_def Let_def)

lemma visitNumberLiteral_not_NaN:
  "\<exists>n. visitNumberLiteral text = numberValue n \<and> \<not> isNaN n"
  by (cases "isNaN (parseFloat text)")
     (simp_all add: visitNumberLiteral_def Let_def numberValue_inject)

lemma boolNumber_finite: "boolNumber b = numberValue (Fin 0) \<or> boolNumber b = numberValue (Fin 1)"
  by (simp add: boolNumber_def)

lemma comparison_finite:
  "performComparisonOperation left right operator = numberValue (Fin 0)
   \<or> performComparisonOperation left right operator = numberValue (Fin 1)"
  unfolding performComparisonOperation_def Let_def
  by (cases "operator = EQUAL \<or> operator = NOT_EQUAL") (simp_all only: if_True if_False boolNumber_finite)

lemma unary_finite:
  assumes "visit e s = (Returned operand, s1)" and "isFiniteNum (toNumber operand)"
  shows "\<exists>q. visit (UnaryExpression uop e) s = (Returned (numberValue (Fin q)), s1)"
proof -
  obtain x where x: "toNumber operand = Fin x"
    using assms(2) by (cases "toNumber operand") simp_all
  show ?thesis
    using assms(1) x
    by (cases uop; cases "toBoolean operand";
        simp add: andThen_Returned ret_def boolNumber_def numberValue_inject)
qed

lemma arithmetic_not_NaN:
  assumes "isFiniteNum (toNumber left)" and "isFiniteNum (toNumber right)"
  shows "if (operator = DIVIDE \<or> operator = MODULO) \<and> numEq (toNumber right) (Fin 0)
         then performArithmeticOperation left right operator s =
                (Thrown addPublicWarningTypeError, s)
         else \<exists>v. performArithmeticOperation left right operator s = (Returned v, s)
                \<and> (vtype v = STRING \<or> (\<exists>n. v = numberValue n \<and> \<not> isNaN n))"
  using assms
  by (cases operator;
      simp add: performArithmeticOperation_def Let_def ret_def throw_def numberValue_inject
        numAdd_finite numSub_finite numMul_finite numDiv_finite numMod_finite)

lemma orLoop_bool:
  "orLoop ev rest (boolNumber b) s = (Returned v, s')
   \<Longrightarrow> v = numberValue (Fin 0) \<or> v = numberValue (Fin 1)"
proof (induction rest arbitrary: b s)
  case Nil
  then show ?case using boolNumber_finite [of b] by (auto simp add: ret_def)
next
  case (Cons e rest)
  show ?case
  proof (cases b)
    case True
    then show ?thesis using Cons.prems by (simp add: ret_def)
  next
    case False
    obtain o1 s1 where e: "ev e s = (o1, s1)" by (cases "ev e s")
    show ?thesis
    proof (cases o1)
      case (Returned r)
      then have "orLoop ev rest (boolNumber (toBoolean r)) s1 = (Returned v, s')"
        using Cons.prems False e by (simp add: andThen_def)
      then show ?thesis by (rule Cons.IH)
    next
      case (Thrown x)
      then show ?thesis using Cons.prems False e by (simp add: andThen_def)
    qed
  qed
qed

lemma andLoop_bool:
  "andLoop ev rest (boolNumber b) s = (Returned v, s')
   \<Longrightarrow> v = numberValue (Fin 0) \<or> v = numberValue (Fin 1)"
proof (induction rest arbitrary: b s)
  case Nil
  then show ?case using boolNumber_finite [of b] by (auto simp add: ret_def)
next
  case (Cons e rest)
  show ?case
  proof (cases b)
    case False
    then show ?thesis using Cons.prems by (simp add: ret_def)
  next
    case True
    obtain o1 s1 where e: "ev e s = (o1, s1)" by (cases "ev e s")
    show ?thesis
    proof (cases o1)
      case (Returned r)
      then have "andLoop ev rest (boolNumber (toBoolean r)) s1 = (Returned v, s')"
        using Cons.prems True e by (simp add: andThen_def)
      then show ?thesis by (rule Cons.IH)
    next
      case (Thrown x)
      then show ?thesis using Cons.prems True e by (simp add: andThen_def)
    qed
  qed
qed

lemma logical_or_finite:
  assumes "visit (LogicalOrExpression a (b # bs)) s = (Returned v, s')"
  shows "v = numberValue (Fin 0) \<or> v = numberValue (Fin 1)"
proof -
  obtain o1 s1 where a: "visit a s = (o1, s1)" by (cases "visit a s")
  show ?thesis
  proof (cases o1)
    case (Thrown x)
    then show ?thesis using assms a by (simp add: andThen_def)
  next
    case (Returned r)
    then have l: "orLoop visit (b # bs) r s1 = (Returned v, s')"
      using assms a by (simp add: andThen_def)
    show ?thesis
    proof (cases "toBoolean r")
      case True
      then show ?thesis using l by (simp add: ret_def)
    next
      case False
      obtain o2 s2 where b: "visit b s1 = (o2, s2)" by (cases "visit b s1")
      show ?thesis
      proof (cases o2)
        case (Thrown x)
        then show ?thesis using l False b by (simp add: andThen_def)
      next
        case (Returned r2)
        then have "orLoop visit bs (boolNumber (toBoolean r2)) s2 = (Returned v, s')"
          using l False b by (simp add: andThen_def)
        then show ?thesis by (rule orLoop_bool)
      qed
    qed
  qed
qed

lemma logical_and_finite:
  assumes "visit (LogicalAndExpression a (b # bs)) s = (Returned v, s')"
  shows "v = numberValue (Fin 0) \<or> v = numberValue (Fin 1)"
proof -
  obtain o1 s1 where a: "visit a s = (o1, s1)" by (cases "visit a s")
  show ?thesis
  proof (cases o1)
    case (Thrown x)
    then show ?thesis using assms a by (simp add: andThen_def)
  next
    case (Returned r)
    then have l: "andLoop visit (b # bs) r s1 = (Returned v, s')"
      using assms a by (simp add: andThen_def)
    show ?thesis
    proof (cases "toBoolean r")
      case False
      then show ?thesis using l by (simp add: ret_def)
    next
      case True
      obtain o2 s2 where b: "visit b s1 = (o2, s2)" by (cases "visit b s1")
      show ?thesis
      proof (cases o2)
        case (Thrown x)
        then show ?thesis using l True b by (simp add: andThen_def)
      next
        case (Returned r2)
        then have "andLoop visit bs (boolNumber (toBoolean r2)) s2 = (Returned v, s')"
          using l True b by (simp add: andThen_def)
        then show ?thesis by (rule andLoop_bool)
      qed
    qed
  qed
qed

text \<open>The string literal \<open>"Infinity"\<close> (with its quotes), the script
  \<open>"Infinity" - "Infinity"\<close>, and the double \<open>2^1023\<close>.\<close>

definition infinityLiteral :: expr where
  "infinityLiteral = StringLiteral (34 # js ''Infinity'' @ [34])"

definition nanScript :: "stmt list" where
  "nanScript = [ExpressionStatement (AdditiveExpression infinityLiteral [(MINUS, infinityLiteral)])]"

definition hugeNumber :: DicenicValue where
  "hugeNumber = numberValue (Fin (2 ^ 1023))"

lemma parseUnsigned_Infinity:
  "parseUnsigned [73, 110, 102, 105, 110, 105, 116, 121] = Some PInf"
  by code_simp

lemma parseUnsigned_x: "parseUnsigned [120] = None"
  by code_simp

lemma toDouble_1: "toDouble 1 = Fin 1"
  by code_simp

lemma toDouble_2: "toDouble 2 = Fin 2"
  by code_simp

lemma parseFloat_Infinity: "parseFloat (js ''Infinity'') = PInf"
  by (simp add: parseFloat_def trimStart_def isWhiteSpace_def parseUnsigned_Infinity js_simps)

lemma parseFloat_x: "parseFloat (js ''x'') = NaN"
  by (simp add: parseFloat_def trimStart_def isWhiteSpace_def parseUnsigned_x js_simps)

lemma visitStringLiteral_Infinity:
  "visitStringLiteral (34 # js ''Infinity'' @ [34]) c = stringValue (js ''Infinity'')"
  by (simp add: visitStringLiteral_def stripQuotes_def decodeEscapes_def hasInterpolation_def
      js_simps)

lemma toNumber_Infinity: "toNumber (stringValue (js ''Infinity'')) = PInf"
  by (simp add: toNumber_def stringValue_def parseFloatOf_def parseFloat_Infinity)

lemma ilog2_pow: "ilog2 (2 ^ n) = int n"
proof -
  have r: "(2::rat) ^ n = rat_of_int (2 ^ n)" by simp
  have q: "quotient_of ((2::rat) ^ n) = (2 ^ n, 1)"
    unfolding r by (rule quotient_of_rat_of_int)
  have b: "bitlen (2 ^ n) = int n + 1"
    using bitlen_twopow_add_eq [of 0 n] by simp
  have b1: "bitlen 1 = 1"
    using bitlen_twopow_add_eq [of 0 0] by simp
  show ?thesis
    by (simp add: ilog2_def q b b1 pow2_def del: of_int_power)
qed

lemma toDouble_overflow: "1024 \<le> n \<Longrightarrow> toDouble (2 ^ n) = PInf"
  by (simp add: toDouble_def Let_def ilog2_pow)

lemma hugeNumber_overflow:
  "performArithmeticOperation hugeNumber (numberValue (Fin 2)) MULTIPLY s =
     (Returned (numberValue PInf), s)"
proof -
  have "(2::rat) ^ 1023 * 2 = 2 ^ 1024" by simp
  then have "numMul (Fin (2 ^ 1023)) (Fin 2) = PInf"
    using toDouble_overflow [of 1024] by (simp only: numMul.simps)
  then show ?thesis
    by (simp only: performArithmeticOperation_def hugeNumber_def toNumber_numberValue Let_def
        ret_def binop.simps binop.case if_False simp_thms)
qed

theorem finite_payload_counterexample:
  "visitProgram nanScript (initialState emptyContext DEFAULT_ERROR_CONFIG (\<lambda>_. 0)) =
     (Returned \<lparr>vtype = NUMBER, vvalue = Num NaN\<rparr>,
      (initialState emptyContext DEFAULT_ERROR_CONFIG (\<lambda>_. 0))
        \<lparr>lastValue := \<lparr>vtype = NUMBER, vvalue = Num NaN\<rparr>\<rparr>)
   \<and> executeScript False nanScript emptyContext DEFAULT_ERROR_CONFIG (\<lambda>_. 0) =
       \<lparr>resultText = Str (js ''NaN''), errorMessages = [], warningMessages = [],
        success = True\<rparr>
   \<and> isFiniteNum (toNumber hugeNumber)
   \<and> performArithmeticOperation hugeNumber (numberValue (Fin 2)) MULTIPLY
        (initialState emptyContext DEFAULT_ERROR_CONFIG (\<lambda>_. 0)) =
       (Returned (numberValue PInf), initialState emptyContext DEFAULT_ERROR_CONFIG (\<lambda>_. 0))"
proof -
  have a: "visitProgram nanScript (initialState emptyContext DEFAULT_ERROR_CONFIG (\<lambda>_. 0)) =
     (Returned \<lparr>vtype = NUMBER, vvalue = Num NaN\<rparr>,
      (initialState emptyContext DEFAULT_ERROR_CONFIG (\<lambda>_. 0))
        \<lparr>lastValue := \<lparr>vtype = NUMBER, vvalue = Num NaN\<rparr>\<rparr>)
   \<and> executeScript False nanScript emptyContext DEFAULT_ERROR_CONFIG (\<lambda>_. 0) =
       \<lparr>resultText = Str (js ''NaN''), errorMessages = [], warningMessages = [],
        success = True\<rparr>"
    by (simp add: nanScript_def infinityLiteral_def run_defs visitStringLiteral_Infinity
        additiveStep_def performArithmeticOperation_def toNumber_Infinity numSub_def
        numberValue_def toString_def del: append.simps)
  have b: "isFiniteNum (toNumber hugeNumber)"
    by (simp only: hugeNumber_def toNumber_numberValue isFiniteNum.simps)
  show ?thesis using a b hugeNumber_overflow by blast
qed

lemma toDouble_6: "toDouble 6 = Fin 6"
  by code_simp

lemma parseDice_2d6: "parseDiceExpression (js ''2d6'') = Returned (Fin 2, Fin 6)"
  by (simp add: parseDiceExpression_def toLowerCase_def trim_def isWhiteSpace_def isDigit_def
      parseIntDigits_def digitsValue_def toDouble_2 toDouble_6 js_simps)

lemma dice_2d6:
  "visitDiceExpression (js ''2d6'') lin col (initialState emptyContext DEFAULT_ERROR_CONFIG (\<lambda>_. 0)) =
     (Returned \<lparr>vtype = DICE_EXPRESSION, vvalue = Num (Fin 2)\<rparr>,
      (initialState emptyContext DEFAULT_ERROR_CONFIG (\<lambda>_. 0))\<lparr>drawn := 2\<rparr>)"
proof -
  have t0: "toDouble 0 = Fin 0" by (simp add: toDouble_def)
  have n: "(2::nat) = Suc (Suc 0)" by simp
  have i: "iterations (Fin 2) = Suc (Suc 0)" by (simp add: iterations_def)
  have v: "validateDiceExpression (Fin 2) (Fin 6)"
    by (simp add: validateDiceExpression_def numLessEq_def MAX_DICE_COUNT_def
        MAX_DICE_SIDES_def)
  show ?thesis
    by (simp add: visitDiceExpression_def evaluateDiceExpression_def parseDice_2d6
        calculate_def v i andThen_def ret_def initialState_def t0 toDouble_1 toDouble_2)
qed

text \<open>
  C9. What each operation that produces a number stores. A number literal gives a
  \<open>NUMBER\<close> that is not NaN (0 when its text does not parse). A dice roll that returns,
  the random source being in \<open>[0, 1)\<close>, gives a finite payload that is not negative.
  A unary operator on an operand that converts to a finite number gives a finite
  \<open>NUMBER\<close>. An arithmetic operator on two operands that convert to finite numbers
  throws when it divides by zero, and otherwise returns, in the same state, a \<open>STRING\<close>
  (a concatenation) or a \<open>NUMBER\<close> that is not NaN. A comparison gives 0 or 1, and so does
  a logical chain with at least one operator. The conversion of a \<open>STRING\<close> to a number is
  never NaN, and is 0 when the string does not parse.
\<close>

theorem numeric_payloads:
  "(\<exists>n. visitNumberLiteral lit = numberValue n \<and> \<not> isNaN n)
   \<and> ((\<forall>k. 0 \<le> randoms s k \<and> randoms s k < 1)
        \<and> visitDiceExpression dice lin col s = (Returned d, s')
      \<longrightarrow> (\<exists>t. vvalue d = Num (Fin t) \<and> 0 \<le> t))
   \<and> (visit e s = (Returned operand, s1) \<and> isFiniteNum (toNumber operand)
      \<longrightarrow> (\<exists>q. visit (UnaryExpression uop e) s = (Returned (numberValue (Fin q)), s1)))
   \<and> (isFiniteNum (toNumber left) \<and> isFiniteNum (toNumber right)
      \<longrightarrow> (if (operator = DIVIDE \<or> operator = MODULO) \<and> numEq (toNumber right) (Fin 0)
           then performArithmeticOperation left right operator s =
                  (Thrown addPublicWarningTypeError, s)
           else \<exists>v. performArithmeticOperation left right operator s = (Returned v, s)
                  \<and> (vtype v = STRING \<or> (\<exists>n. v = numberValue n \<and> \<not> isNaN n))))
   \<and> (performComparisonOperation left right operator = numberValue (Fin 0)
      \<or> performComparisonOperation left right operator = numberValue (Fin 1))
   \<and> (visit (LogicalOrExpression a (b # bs)) s = (Returned lo, s2)
      \<longrightarrow> lo = numberValue (Fin 0) \<or> lo = numberValue (Fin 1))
   \<and> (visit (LogicalAndExpression a (b # bs)) s = (Returned la, s3)
      \<longrightarrow> la = numberValue (Fin 0) \<or> la = numberValue (Fin 1))
   \<and> (vtype w = STRING \<longrightarrow> \<not> isNaN (toNumber w))
   \<and> (vtype w = STRING \<and> isNaN (parseFloatOf (vvalue w)) \<longrightarrow> toNumber w = Fin 0)"
  using visitNumberLiteral_not_NaN [of lit] dice_finite [of s dice lin col d s']
    unary_finite [of e s operand s1 uop] arithmetic_not_NaN [of left right operator s]
    comparison_finite [of left right operator] logical_or_finite [of a b bs s lo s2]
    logical_and_finite [of a b bs s la s3] toNumber_string [of w] toNumber_failure [of w]
  by blast

theorem numeric_payloads_witness:
  "(\<forall>k. 0 \<le> randoms (initialState emptyContext DEFAULT_ERROR_CONFIG (\<lambda>_. 0)) k
         \<and> randoms (initialState emptyContext DEFAULT_ERROR_CONFIG (\<lambda>_. 0)) k < 1)
   \<and> visitDiceExpression (js ''2d6'') 1 1 (initialState emptyContext DEFAULT_ERROR_CONFIG (\<lambda>_. 0)) =
       (Returned \<lparr>vtype = DICE_EXPRESSION, vvalue = Num (Fin 2)\<rparr>,
        (initialState emptyContext DEFAULT_ERROR_CONFIG (\<lambda>_. 0))\<lparr>drawn := 2\<rparr>)
   \<and> (\<exists>t. vvalue \<lparr>vtype = DICE_EXPRESSION, vvalue = Num (Fin 2)\<rparr> = Num (Fin t) \<and> 0 \<le> t)
   \<and> visit (NumberLiteral (js ''5'')) (initialState emptyContext DEFAULT_ERROR_CONFIG (\<lambda>_. 0)) =
       (Returned (numberValue (Fin 5)), initialState emptyContext DEFAULT_ERROR_CONFIG (\<lambda>_. 0))
   \<and> isFiniteNum (toNumber (numberValue (Fin 5)))
   \<and> (\<exists>q. visit (UnaryExpression UNARY_MINUS (NumberLiteral (js ''5'')))
              (initialState emptyContext DEFAULT_ERROR_CONFIG (\<lambda>_. 0)) =
            (Returned (numberValue (Fin q)),
             initialState emptyContext DEFAULT_ERROR_CONFIG (\<lambda>_. 0)))
   \<and> isFiniteNum (toNumber (numberValue (Fin 1)))
   \<and> isFiniteNum (toNumber (stringValue (js ''x'')))
   \<and> performArithmeticOperation (numberValue (Fin 1)) (stringValue (js ''x'')) MINUS
        (initialState emptyContext DEFAULT_ERROR_CONFIG (\<lambda>_. 0)) =
       (Returned (numberValue (Fin 1)), initialState emptyContext DEFAULT_ERROR_CONFIG (\<lambda>_. 0))
   \<and> visit (LogicalOrExpression (NumberLiteral (js ''1'')) [NumberLiteral (js ''0'')])
        (initialState emptyContext DEFAULT_ERROR_CONFIG (\<lambda>_. 0)) =
       (Returned (numberValue (Fin 1)), initialState emptyContext DEFAULT_ERROR_CONFIG (\<lambda>_. 0))
   \<and> visit (LogicalAndExpression (NumberLiteral (js ''1'')) [NumberLiteral (js ''0'')])
        (initialState emptyContext DEFAULT_ERROR_CONFIG (\<lambda>_. 0)) =
       (Returned (numberValue (Fin 0)), initialState emptyContext DEFAULT_ERROR_CONFIG (\<lambda>_. 0))
   \<and> vtype (stringValue (js ''x'')) = STRING
   \<and> isNaN (parseFloatOf (vvalue (stringValue (js ''x''))))
   \<and> toNumber (stringValue (js ''x'')) = Fin 0"
proof -
  let ?s = "initialState emptyContext DEFAULT_ERROR_CONFIG (\<lambda>_. 0)"
  have r: "\<forall>k. 0 \<le> randoms ?s k \<and> randoms ?s k < 1"
    by (simp add: initialState_def)
  have d: "visitDiceExpression (js ''2d6'') 1 1 ?s =
       (Returned \<lparr>vtype = DICE_EXPRESSION, vvalue = Num (Fin 2)\<rparr>, ?s\<lparr>drawn := 2\<rparr>)"
    by (rule dice_2d6)
  have v5: "visit (NumberLiteral (js ''5'')) ?s = (Returned (numberValue (Fin 5)), ?s)"
    by (simp add: ret_def literal_simps)
  have p: "parseFloatOf (vvalue (stringValue (js ''x''))) = NaN"
    by (simp add: parseFloatOf_def stringValue_def parseFloat_x)
  have vt: "vtype (stringValue (js ''x'')) = STRING"
    by (simp add: stringValue_def)
  have t: "toNumber (stringValue (js ''x'')) = Fin 0"
    by (simp add: toNumber_def stringValue_def parseFloatOf_def parseFloat_x)
  have ar: "performArithmeticOperation (numberValue (Fin 1)) (stringValue (js ''x'')) MINUS ?s =
       (Returned (numberValue (Fin 1)), ?s)"
    by (simp add: performArithmeticOperation_def t numSub_def toDouble_1 ret_def)
  have lo: "visit (LogicalOrExpression (NumberLiteral (js ''1'')) [NumberLiteral (js ''0'')]) ?s =
       (Returned (numberValue (Fin 1)), ?s)"
    by (simp add: ret_def andThen_def literal_simps boolNumber_def)
  have la: "visit (LogicalAndExpression (NumberLiteral (js ''1'')) [NumberLiteral (js ''0'')]) ?s =
       (Returned (numberValue (Fin 0)), ?s)"
    by (simp add: ret_def andThen_def literal_simps boolNumber_def)
  note T = numeric_payloads
      [where s = ?s and dice = "js ''2d6''" and lin = 1 and col = 1
         and d = "\<lparr>vtype = DICE_EXPRESSION, vvalue = Num (Fin 2)\<rparr>"
         and s' = "?s\<lparr>drawn := 2\<rparr>"
         and e = "NumberLiteral (js ''5'')" and operand = "numberValue (Fin 5)" and ?s1.0 = ?s
         and uop = UNARY_MINUS
         and left = "numberValue (Fin 1)" and right = "stringValue (js ''x'')"
         and operator = MINUS
         and a = "NumberLiteral (js ''1'')" and b = "NumberLiteral (js ''0'')" and bs = "[]"
         and lo = "numberValue (Fin 1)" and ?s2.0 = ?s
         and la = "numberValue (Fin 0)" and ?s3.0 = ?s
         and w = "stringValue (js ''x'')" and lit = "js ''5''"]
  have c1: "\<exists>t. vvalue \<lparr>vtype = DICE_EXPRESSION, vvalue = Num (Fin 2)\<rparr> = Num (Fin t) \<and> 0 \<le> t"
    using T r d by blast
  have c2: "\<exists>q. visit (UnaryExpression UNARY_MINUS (NumberLiteral (js ''5''))) ?s =
            (Returned (numberValue (Fin q)), ?s)"
    using T v5 by (simp del: visit.simps)
  show ?thesis
    using r d c1 v5 c2 t ar lo la vt p by (simp del: visit.simps)
qed


section \<open>The iteration ceiling of \<open>while\<close>\<close>

text \<open>One round of the loop when neither the condition nor the body throws: the
  condition is evaluated, then the body, whose result becomes the loop's result and the
  \<open>lastValue\<close>. (A round that throws leaves the result as it was.)\<close>

definition iteration ::
  "DicenicValue M \<Rightarrow> DicenicValue M \<Rightarrow> DicenicValue \<times> istate \<Rightarrow> DicenicValue \<times> istate" where
  "iteration cond body = (\<lambda>(r, s).
     case cond s of
       (Thrown _, s1) \<Rightarrow> (r, s1)
     | (Returned _, s1) \<Rightarrow>
         (case body s1 of
            (Thrown _, s2) \<Rightarrow> (r, s2)
          | (Returned b, s2) \<Rightarrow> (b, s2\<lparr>lastValue := b\<rparr>)))"












section \<open>What a run records and what it throws\<close>

text \<open>The handler is within its ceiling when it holds at most \<open>maxErrors\<close> errors.\<close>

definition withinCeiling :: "ErrorHandler \<Rightarrow> bool" where
  "withinCeiling h = (int (length (errors h)) \<le> maxErrors (config h))"

text \<open>The errors that the handler throws when recovery is disabled: the interpreter
  hands it VariableAccess and Dice errors only.\<close>

fun isRecoverable :: "ErrorDetail \<Rightarrow> bool" where
  "isRecoverable (VariableAccessDetail name acc) = True"
| "isRecoverable (DiceDetail d) = True"
| "isRecoverable _ = False"

text \<open>The three kinds of exception: a plain \<open>Error\<close> (or \<open>TypeError\<close>) of the interpreter;
  the Runtime error of the ceiling, the list being longer than \<open>maxErrors\<close>; the error
  just recorded, recovery being disabled.\<close>

definition abrupt :: "ErrorHandler \<Rightarrow> exn \<Rightarrow> bool" where
  "abrupt h x =
     (case x of
        JsError m \<Rightarrow> True
      | DicenicErr e \<Rightarrow>
          (e = tooManyErrors (length (errors h))
             \<and> maxErrors (config h) < int (length (errors h)))
          \<or> (errors h \<noteq> [] \<and> last (errors h) = e \<and> isRecoverable (detail e)
               \<and> enableRecovery (config h) = False))"

definition effectOk :: "istate \<Rightarrow> 'a outcome \<Rightarrow> istate \<Rightarrow> bool" where
  "effectOk s r s' =
     (config (errorHandler s') = config (errorHandler s)
      \<and> (case r of
           Returned v \<Rightarrow> withinCeiling (errorHandler s')
         | Thrown x \<Rightarrow>
             int (length (errors (errorHandler s'))) \<le> maxErrors (config (errorHandler s')) + 1
             \<and> abrupt (errorHandler s') x))"

definition sound :: "'a M \<Rightarrow> bool" where
  "sound m = (\<forall>s r s'. withinCeiling (errorHandler s) \<longrightarrow> m s = (r, s') \<longrightarrow> effectOk s r s')"

lemma soundI:
  "(\<And>s r s'. withinCeiling (errorHandler s) \<Longrightarrow> m s = (r, s') \<Longrightarrow> effectOk s r s') \<Longrightarrow> sound m"
  by (simp add: sound_def)

lemma soundD: "sound m \<Longrightarrow> withinCeiling (errorHandler s) \<Longrightarrow> m s = (r, s') \<Longrightarrow> effectOk s r s'"
  by (simp add: sound_def)

lemma sound_ret: "sound (ret x)"
  by (simp add: sound_def ret_def effectOk_def)

lemma sound_throw: "sound (throw (JsError m))"
  by (auto simp add: sound_def throw_def effectOk_def abrupt_def withinCeiling_def)

lemma sound_andThen:
  assumes "sound m" and "\<And>x. sound (f x)"
  shows "sound (andThen m f)"
proof (rule soundI)
  fix s r s'
  assume w: "withinCeiling (errorHandler s)" and a: "andThen m f s = (r, s')"
  obtain r1 s1 where m: "m s = (r1, s1)" by (cases "m s")
  have e1: "effectOk s r1 s1" by (rule soundD [OF assms(1) w m])
  show "effectOk s r s'"
  proof (cases r1)
    case (Thrown x)
    then show ?thesis using a m e1 by (auto simp add: andThen_def effectOk_def)
  next
    case (Returned x)
    then have f: "f x s1 = (r, s')" using a m by (simp add: andThen_def)
    have w1: "withinCeiling (errorHandler s1)" using e1 Returned by (simp add: effectOk_def)
    have "effectOk s1 r s'" by (rule soundD [OF assms(2) w1 f])
    then show ?thesis using e1 by (simp add: effectOk_def)
  qed
qed

text \<open>A step that leaves the handler as it was, and throws plain errors only.\<close>

lemma sound_frame:
  assumes "\<And>s r s'. m s = (r, s') \<Longrightarrow>
             errorHandler s' = errorHandler s \<and> (\<forall>x. r = Thrown x \<longrightarrow> (\<exists>msg. x = JsError msg))"
  shows "sound m"
proof (rule soundI)
  fix s r s'
  assume w: "withinCeiling (errorHandler s)" and m: "m s = (r, s')"
  show "effectOk s r s'"
    using assms [OF m] w
    by (cases r) (auto simp add: effectOk_def abrupt_def withinCeiling_def)
qed

lemma sound_warning: "sound (withHandler (\<lambda>h. (Returned x, addWarning w h)))"
  by (auto simp add: sound_def withHandler_def addWarning_def effectOk_def withinCeiling_def)

lemma sound_recordOrThrow:
  assumes "isRecoverable (detail e)"
  shows "sound (withHandler (recordOrThrow e))"
proof (rule soundI)
  fix s r s'
  assume w: "withinCeiling (errorHandler s)" and m: "withHandler (recordOrThrow e) s = (r, s')"
  show "effectOk s r s'"
    using w m assms
    by (auto simp add: withHandler_def recordOrThrow_def addError_def Let_def effectOk_def
        abrupt_def withinCeiling_def split: if_splits)
qed

lemma sound_handleDiceError: "sound (withHandler (handleDiceError msg d lin col))"
proof (rule soundI)
  fix s r s'
  assume w: "withinCeiling (errorHandler s)"
    and m: "withHandler (handleDiceError msg d lin col) s = (r, s')"
  show "effectOk s r s'"
    using w m
    by (auto simp add: withHandler_def handleDiceError_def addError_def addWarning_def Let_def
        effectOk_def abrupt_def withinCeiling_def split: if_splits)
qed

lemma rollLoop_handler: "errorHandler (snd (rollLoop n sides tot s)) = errorHandler s"
  by (induction n arbitrary: tot s) simp_all

lemma evaluateDiceExpression_frame:
  assumes "evaluateDiceExpression text s = (r, s')"
  shows "errorHandler s' = errorHandler s"
proof (cases "parseDiceExpression text")
  case (Thrown x)
  then show ?thesis using assms by (simp add: evaluateDiceExpression_def throw_def)
next
  case (Returned p)
  obtain count sides where p: "p = (count, sides)" by (cases p)
  show ?thesis
  proof (cases "validateDiceExpression count sides")
    case False
    then show ?thesis
      using assms Returned p
      by (simp add: evaluateDiceExpression_def calculate_def throw_def andThen_def)
  next
    case True
    obtain tot s1 where r: "rollLoop (iterations count) sides (Fin 0) s = (tot, s1)"
      by (cases "rollLoop (iterations count) sides (Fin 0) s")
    have "s' = s1"
      using assms Returned p True r
      by (simp add: evaluateDiceExpression_def calculate_def andThen_def ret_def)
    then show ?thesis using rollLoop_handler [of "iterations count" sides "Fin 0" s] r by simp
  qed
qed

lemma sound_visitDiceExpression: "sound (visitDiceExpression text lin col)"
proof (rule soundI)
  fix s r s'
  assume w: "withinCeiling (errorHandler s)" and m: "visitDiceExpression text lin col s = (r, s')"
  obtain r1 s1 where e: "evaluateDiceExpression text s = (r1, s1)"
    by (cases "evaluateDiceExpression text s")
  have h: "errorHandler s1 = errorHandler s" by (rule evaluateDiceExpression_frame [OF e])
  show "effectOk s r s'"
  proof (cases r1)
    case (Returned v)
    then show ?thesis using m e h w by (auto simp add: visitDiceExpression_def effectOk_def)
  next
    case (Thrown x)
    then have "withHandler
                 (handleDiceError (js ''Failed to evaluate dice expression: '' @ exnMessage x)
                    text lin col) s1 = (r, s')"
      using m e by (simp add: visitDiceExpression_def)
    then have "effectOk s1 r s'"
      using soundD [OF sound_handleDiceError] w h by simp
    then show ?thesis using h by (simp add: effectOk_def)
  qed
qed

lemma sound_performArithmeticOperation: "sound (performArithmeticOperation l r operator)"
  by (rule sound_frame)
     (cases operator;
      auto simp add: performArithmeticOperation_def Let_def ret_def throw_def
        addPublicWarningTypeError_def split: if_splits)

lemma sound_steps:
  "sound (additiveStep operator a b)" "sound (multiplicativeStep operator a b)"
  "sound (relationalStep operator a b)" "sound (equalityStep operator a b)"
  by (simp_all add: additiveStep_def multiplicativeStep_def relationalStep_def equalityStep_def
      sound_ret sound_performArithmeticOperation)

lemma sound_fromContext_special:
  "sound (fromContext (\<lambda>c. getSpecialVariable c prefix name))"
  by (rule sound_frame)
     (auto simp add: fromContext_def getSpecialVariable_def getStorageByPrefix_def
        unknownPrefix_def split: if_splits option.splits)

lemma sound_visitSpecialVariable: "sound (visitSpecialVariable text)"
  by (simp add: visitSpecialVariable_def sound_ret sound_fromContext_special)

lemma sound_getVariable: "sound (\<lambda>s. (Returned (getVariable (ctx s) name), s))"
  by (rule sound_frame) auto

lemma sound_currentValueOf: "sound (currentValueOf lhs)"
  by (cases lhs)
     (simp_all add: currentValueOf_def sound_ret sound_fromContext_special
        invalidLeftHandSide_def sound_throw sound_getVariable)

lemma sound_compoundValue: "sound (compoundValue operator cv rv)"
  by (cases operator)
     (simp_all add: compoundValue_def sound_performArithmeticOperation sound_throw)

lemma sound_finalValueOf: "sound (finalValueOf lhs rv operator)"
  by (simp add: finalValueOf_def sound_ret sound_andThen sound_currentValueOf
      sound_compoundValue)

lemma sound_if: "sound a \<Longrightarrow> sound b \<Longrightarrow> sound (if c then a else b)"
  by simp

lemma sound_writeDenied: "sound (writeDenied msg t)"
proof -
  have "handleVariableAccessError msg t WriteAccess (- 1) (- 1) =
        recordOrThrow \<lparr>message = msg, line = - 1, column = - 1,
                        detail = VariableAccessDetail t WriteAccess\<rparr>"
    by (rule ext) (simp add: handleVariableAccessError_def)
  then show ?thesis by (simp add: writeDenied_def sound_recordOrThrow)
qed

lemma sound_setVariable:
  "sound (\<lambda>s. (Returned fv, s\<lparr>ctx := setVariable (ctx s) name fv\<rparr>))"
  by (rule sound_frame) auto

lemma sound_setSpecial:
  "sound (\<lambda>s. case setSpecialVariable (ctx s) prefix name fv of
                 Returned c \<Rightarrow> (Returned fv, s\<lparr>ctx := c\<rparr>)
               | Thrown x \<Rightarrow> andThen (writeDenied (exnMessage x) text) (\<lambda>_. ret fv) s)"
proof (rule soundI)
  fix s r s'
  assume w: "withinCeiling (errorHandler s)"
    and m: "(case setSpecialVariable (ctx s) prefix name fv of
                 Returned c \<Rightarrow> (Returned fv, s\<lparr>ctx := c\<rparr>)
               | Thrown x \<Rightarrow> andThen (writeDenied (exnMessage x) text) (\<lambda>_. ret fv) s)
            = (r, s')"
  show "effectOk s r s'"
  proof (cases "setSpecialVariable (ctx s) prefix name fv")
    case (Returned c)
    then show ?thesis using m w by (auto simp add: effectOk_def)
  next
    case (Thrown x)
    then have "andThen (writeDenied (exnMessage x) text) (\<lambda>_. ret fv) s = (r, s')"
      using m by simp
    moreover have "sound (andThen (writeDenied (exnMessage x) text) (\<lambda>_. ret fv))"
      by (intro sound_andThen sound_writeDenied sound_ret)
    ultimately show ?thesis using soundD w by blast
  qed
qed

lemma sound_storeFinalValue: "sound (storeFinalValue lhs fv)"
  by (cases lhs)
     (simp_all add: storeFinalValue_def Let_def sound_ret sound_throw sound_andThen
        sound_writeDenied sound_setVariable sound_setSpecial invalidLeftHandSide_def)

lemma sound_performAssignment: "sound (performAssignment lhs rv operator)"
  by (simp add: performAssignment_def sound_andThen sound_finalValueOf sound_storeFinalValue)

lemma sound_chainLoop:
  assumes "\<And>e. e \<in> snd ` set rest \<Longrightarrow> sound (ev e)"
    and "\<And>operator a b. sound (step operator a b)"
  shows "sound (chainLoop ev step rest r)"
  using assms(1)
proof (induction rest arbitrary: r)
  case Nil
  show ?case by (simp add: sound_ret)
next
  case (Cons p rest)
  obtain operator e where p: "p = (operator, e)" by (cases p)
  have e: "sound (ev e)" using Cons.prems p by simp
  have r: "sound (chainLoop ev step rest x)" for x using Cons.IH Cons.prems by simp
  show ?case unfolding p by (simp add: sound_andThen e assms(2) r)
qed

lemma sound_orLoop:
  assumes "\<And>e. e \<in> set rest \<Longrightarrow> sound (ev e)"
  shows "sound (orLoop ev rest r)"
  using assms
proof (induction rest arbitrary: r)
  case Nil
  show ?case by (simp add: sound_ret)
next
  case (Cons e rest)
  have e: "sound (ev e)" using Cons.prems by simp
  have r: "sound (orLoop ev rest x)" for x using Cons.IH Cons.prems by simp
  show ?case by (simp add: sound_andThen sound_ret e r)
qed

lemma sound_andLoop:
  assumes "\<And>e. e \<in> set rest \<Longrightarrow> sound (ev e)"
  shows "sound (andLoop ev rest r)"
  using assms
proof (induction rest arbitrary: r)
  case Nil
  show ?case by (simp add: sound_ret)
next
  case (Cons e rest)
  have e: "sound (ev e)" using Cons.prems by simp
  have r: "sound (andLoop ev rest x)" for x using Cons.IH Cons.prems by simp
  show ?case by (simp add: sound_andThen sound_ret e r)
qed

lemma sound_stringLiteral: "sound (\<lambda>s. (Returned (visitStringLiteral text (ctx s)), s))"
  by (rule sound_frame) auto

lemma sound_visit: "sound (visit e)"
proof (induction e rule: visit.induct)
  case (1 t)
  show ?case by (simp add: sound_ret)
next
  case (2 t)
  show ?case by (simp add: sound_stringLiteral)
next
  case (3 t lin col)
  show ?case by (simp add: sound_visitDiceExpression)
next
  case (4 t)
  show ?case by (simp add: sound_visitSpecialVariable)
next
  case (5 name)
  show ?case by (simp add: sound_getVariable)
next
  case (6 e)
  then show ?case by simp
next
  case (7 lhs operator rhs)
  then show ?case by (simp add: sound_andThen sound_performAssignment)
next
  case (8 operator e)
  have "sound (case operator of
         LOGICAL_NOT \<Rightarrow> ret (boolNumber (\<not> toBoolean operand))
       | UNARY_MINUS \<Rightarrow> ret (numberValue (numNeg (toNumber operand)))
       | UNARY_PLUS \<Rightarrow> ret (numberValue (toNumber operand)))" for operand
    by (cases operator) (simp_all add: sound_ret)
  then show ?case using 8 by (simp add: sound_andThen)
next
  case (9 e rest)
  then show ?case by (simp add: sound_andThen sound_chainLoop sound_steps)
next
  case (10 e rest)
  then show ?case by (simp add: sound_andThen sound_chainLoop sound_steps)
next
  case (11 e rest)
  then show ?case by (simp add: sound_andThen sound_chainLoop sound_steps)
next
  case (12 e rest)
  then show ?case by (simp add: sound_andThen sound_chainLoop sound_steps)
next
  case (13 e rest)
  then show ?case by (simp add: sound_andThen sound_andLoop)
next
  case (14 e rest)
  then show ?case by (simp add: sound_andThen sound_orLoop)
next
  case (15 c e1 e2)
  have "sound (if toBoolean x then visit e1 else visit e2)" for x
    using 15(2,3) by (cases "toBoolean x") simp_all
  then show ?case using 15(1) by (simp add: sound_andThen)
qed

lemma sound_setLastValue: "sound (setLastValue v)"
  unfolding setLastValue_def by (rule sound_frame) auto

lemma sound_whileLoop:
  assumes "sound cond" and "sound body"
  shows "sound (whileLoop cond body n r)"
proof (induction "maxLoopCount - n" arbitrary: n r)
  case 0
  then show ?case
    by (subst whileLoop.simps) (simp add: sound_ret)
next
  case (Suc k)
  have r: "sound (whileLoop cond body (n + 1) x)" for x
    using Suc.hyps by (intro Suc.hyps(1)) simp
  show ?case
    by (subst whileLoop.simps)
       (intro sound_if sound_andThen sound_ret assms sound_setLastValue r)
qed

lemma sound_visitWhileStatement:
  assumes "sound cond" and "sound body"
  shows "sound (visitWhileStatement lin col cond body)"
proof -
  have "sound (case p of (result, loopCount) \<Rightarrow>
       if maxLoopCount \<le> loopCount then
         andThen
           (withHandler (\<lambda>h. (Returned (),
              handleLoopError
                (js ''While loop exceeded maximum iteration count, terminating to prevent infinite loop'')
                (js ''while'') (Some (int maxLoopCount)) lin col h)))
           (\<lambda>_. ret result)
       else ret result)" for p
    by (cases p) (simp add: sound_ret sound_andThen handleLoopError_def sound_warning)
  then show ?thesis
    unfolding visitWhileStatement_def by (intro sound_andThen sound_whileLoop assms)
qed

lemma sound_statementsLoop:
  assumes "\<And>st. st \<in> set sts \<Longrightarrow> sound (ex st)"
  shows "sound (statementsLoop ex sts r)"
  using assms
proof (induction sts arbitrary: r)
  case Nil
  show ?case by (simp add: sound_ret)
next
  case (Cons st sts)
  have e: "sound (ex st)" using Cons.prems by simp
  have r: "sound (statementsLoop ex sts x)" for x using Cons.IH Cons.prems by simp
  show ?case by (simp add: sound_andThen sound_setLastValue e r)
qed

lemma sound_visitStatement: "sound (visitStatement st)"
proof (induction st rule: visitStatement.induct)
  case (1 c thenBranch elseBranch)
  have "sound (if toBoolean x then visitStatement thenBranch
               else (case elseBranch of
                       Some st \<Rightarrow> visitStatement st
                     | None \<Rightarrow> ret (numberValue (Fin 0))))" for x
    using 1 by (cases "toBoolean x"; cases elseBranch) (simp_all add: sound_ret)
  then show ?case by (simp add: sound_andThen sound_visit)
next
  case (2 lin col c body)
  then show ?case by (simp add: sound_visitWhileStatement sound_visit)
next
  case (3 e)
  show ?case by (simp add: sound_visit)
next
  case (4 statements)
  then show ?case by (simp add: sound_statementsLoop)
qed

lemma sound_visitProgram: "sound (visitProgram tree)"
  by (simp add: visitProgram_def sound_statementsLoop sound_visitStatement)

lemma sound_interpretTree: "sound (interpretTree tree)"
proof -
  have "sound (\<lambda>s. (Returned (toString (lastValue s)), s))"
    by (rule sound_frame) auto
  then show ?thesis
    by (simp add: interpretTree_def sound_andThen sound_setLastValue sound_visitProgram)
qed

lemma initial_withinCeiling:
  "0 \<le> maxErrors cfg \<Longrightarrow> withinCeiling (errorHandler (initialState c cfg rnd))"
  by (simp add: withinCeiling_def initialState_def newErrorHandler_def)

lemma initial_config: "config (errorHandler (initialState c cfg rnd)) = cfg"
  by (simp add: initialState_def newErrorHandler_def)

lemma addError_ceiling:
  "addError e h =
     (if maxErrors (config h) < int (length (errors h)) + 1
      then Thrown (DicenicErr (tooManyErrors (length (errors h) + 1)))
      else Returned (),
      h\<lparr>errors := errors h @ [e]\<rparr>)"
  by (simp add: addError_def Let_def)

lemma run_within_ceiling:
  assumes "sound m" and "withinCeiling (errorHandler s)" and "m s = (r, s')"
  shows "config (errorHandler s') = config (errorHandler s)
         \<and> (case r of
              Returned v \<Rightarrow> withinCeiling (errorHandler s')
            | Thrown x \<Rightarrow>
                int (length (errors (errorHandler s')))
                  \<le> maxErrors (config (errorHandler s')) + 1)"
  using soundD [OF assms] by (cases r) (auto simp add: effectOk_def)

theorem error_ceiling_counterexample:
  "\<exists>s'. interpretTree deniedWritesScript
            (initialState emptyContext DEFAULT_ERROR_CONFIG (\<lambda>_. 0)) =
          (Thrown (DicenicErr (tooManyErrors 11)), s')
        \<and> length (errors (errorHandler s')) = 11
        \<and> maxErrors (config (errorHandler s')) = 10"
  using deniedWrites_run by blast

text \<open>
  C6. \<open>addError\<close> appends the error first and then compares: when the list has become
  longer than \<open>maxErrors\<close> it throws the Runtime error of the ceiling, whatever
  \<open>enableRecovery\<close> is, and the list keeps the appended error. So, from a state within
  the ceiling, every expression, every statement and the whole run leave the
  configuration as it was and, when they return, a list of at most \<open>maxErrors\<close> errors;
  when they throw, a list of at most \<open>maxErrors + 1\<close> errors.
\<close>

theorem error_ceiling:
  "addError e h =
     (if maxErrors (config h) < int (length (errors h)) + 1
      then Thrown (DicenicErr (tooManyErrors (length (errors h) + 1)))
      else Returned (),
      h\<lparr>errors := errors h @ [e]\<rparr>)
   \<and> (withinCeiling (errorHandler s) \<and> visit ex s = (r, s')
      \<longrightarrow> config (errorHandler s') = config (errorHandler s)
          \<and> (case r of
               Returned v \<Rightarrow> withinCeiling (errorHandler s')
             | Thrown x \<Rightarrow>
                 int (length (errors (errorHandler s')))
                   \<le> maxErrors (config (errorHandler s')) + 1))
   \<and> (withinCeiling (errorHandler s) \<and> visitStatement st s = (q, s2)
      \<longrightarrow> config (errorHandler s2) = config (errorHandler s)
          \<and> (case q of
               Returned v \<Rightarrow> withinCeiling (errorHandler s2)
             | Thrown x \<Rightarrow>
                 int (length (errors (errorHandler s2)))
                   \<le> maxErrors (config (errorHandler s2)) + 1))
   \<and> (0 \<le> maxErrors cfg \<and> interpretTree tree (initialState c cfg rnd) = (p, s3)
      \<longrightarrow> config (errorHandler s3) = cfg
          \<and> (case p of
               Returned v \<Rightarrow> int (length (errors (errorHandler s3))) \<le> maxErrors cfg
             | Thrown x \<Rightarrow> int (length (errors (errorHandler s3))) \<le> maxErrors cfg + 1))"
proof -
  have a: "withinCeiling (errorHandler s) \<and> visit ex s = (r, s')
      \<longrightarrow> config (errorHandler s') = config (errorHandler s)
          \<and> (case r of
               Returned v \<Rightarrow> withinCeiling (errorHandler s')
             | Thrown x \<Rightarrow>
                 int (length (errors (errorHandler s')))
                   \<le> maxErrors (config (errorHandler s')) + 1)"
    using run_within_ceiling [OF sound_visit] by blast
  have b: "withinCeiling (errorHandler s) \<and> visitStatement st s = (q, s2)
      \<longrightarrow> config (errorHandler s2) = config (errorHandler s)
          \<and> (case q of
               Returned v \<Rightarrow> withinCeiling (errorHandler s2)
             | Thrown x \<Rightarrow>
                 int (length (errors (errorHandler s2)))
                   \<le> maxErrors (config (errorHandler s2)) + 1)"
    using run_within_ceiling [OF sound_visitStatement] by blast
  have c: "0 \<le> maxErrors cfg \<and> interpretTree tree (initialState c cfg rnd) = (p, s3)
      \<longrightarrow> config (errorHandler s3) = cfg
          \<and> (case p of
               Returned v \<Rightarrow> int (length (errors (errorHandler s3))) \<le> maxErrors cfg
             | Thrown x \<Rightarrow> int (length (errors (errorHandler s3))) \<le> maxErrors cfg + 1)"
  proof (intro impI, elim conjE)
    assume m: "0 \<le> maxErrors cfg" and i: "interpretTree tree (initialState c cfg rnd) = (p, s3)"
    have "config (errorHandler s3) = cfg
         \<and> (case p of
              Returned v \<Rightarrow> withinCeiling (errorHandler s3)
            | Thrown x \<Rightarrow>
                int (length (errors (errorHandler s3)))
                  \<le> maxErrors (config (errorHandler s3)) + 1)"
      using run_within_ceiling [OF sound_interpretTree initial_withinCeiling [OF m] i]
      by (simp add: initial_config)
    then show "config (errorHandler s3) = cfg
          \<and> (case p of
               Returned v \<Rightarrow> int (length (errors (errorHandler s3))) \<le> maxErrors cfg
             | Thrown x \<Rightarrow> int (length (errors (errorHandler s3))) \<le> maxErrors cfg + 1)"
      by (cases p) (auto simp add: withinCeiling_def)
  qed
  show ?thesis using addError_ceiling [of e h] a b c by blast
qed

theorem error_ceiling_witness:
  "withinCeiling (errorHandler (initialState emptyContext DEFAULT_ERROR_CONFIG (\<lambda>_. 0)))
   \<and> visitStatement deniedWrite (initialState emptyContext DEFAULT_ERROR_CONFIG (\<lambda>_. 0)) =
       (Returned (numberValue (Fin 3)),
        (initialState emptyContext DEFAULT_ERROR_CONFIG (\<lambda>_. 0))
          \<lparr>errorHandler := (newErrorHandler DEFAULT_ERROR_CONFIG)
             \<lparr>errors := [writeError (js ''$rname'')]\<rparr>\<rparr>)
   \<and> withinCeiling ((newErrorHandler DEFAULT_ERROR_CONFIG)
                       \<lparr>errors := [writeError (js ''$rname'')]\<rparr>)
   \<and> 0 \<le> maxErrors DEFAULT_ERROR_CONFIG
   \<and> (\<exists>s3. interpretTree deniedWritesScript
              (initialState emptyContext DEFAULT_ERROR_CONFIG (\<lambda>_. 0)) =
            (Thrown (DicenicErr (tooManyErrors 11)), s3)
          \<and> config (errorHandler s3) = DEFAULT_ERROR_CONFIG
          \<and> int (length (errors (errorHandler s3))) \<le> maxErrors DEFAULT_ERROR_CONFIG + 1)"
proof -
  let ?s = "initialState emptyContext DEFAULT_ERROR_CONFIG (\<lambda>_. 0)"
  let ?s1 = "?s\<lparr>errorHandler := (newErrorHandler DEFAULT_ERROR_CONFIG)
             \<lparr>errors := [writeError (js ''$rname'')]\<rparr>\<rparr>"
  have m: "0 \<le> maxErrors DEFAULT_ERROR_CONFIG" by (simp add: DEFAULT_ERROR_CONFIG_def)
  have w: "withinCeiling (errorHandler ?s)" by (rule initial_withinCeiling [OF m])
  have d: "visitStatement deniedWrite ?s = (Returned (numberValue (Fin 3)), ?s1)"
    by (simp add: deniedWrite_step initialState_def newErrorHandler_def DEFAULT_ERROR_CONFIG_def)
  have w1: "withinCeiling ((newErrorHandler DEFAULT_ERROR_CONFIG)
                       \<lparr>errors := [writeError (js ''$rname'')]\<rparr>)"
    using error_ceiling [where s = ?s and st = deniedWrite and q = "Returned (numberValue (Fin 3))"
        and ?s2.0 = ?s1] w d
    by simp
  obtain s3 where s3: "interpretTree deniedWritesScript ?s =
            (Thrown (DicenicErr (tooManyErrors 11)), s3)"
    using deniedWrites_run by blast
  have c3: "config (errorHandler s3) = DEFAULT_ERROR_CONFIG
          \<and> int (length (errors (errorHandler s3))) \<le> maxErrors DEFAULT_ERROR_CONFIG + 1"
    using error_ceiling [where cfg = DEFAULT_ERROR_CONFIG and tree = deniedWritesScript
        and c = emptyContext and rnd = "\<lambda>_. 0" and p = "Thrown (DicenicErr (tooManyErrors 11))"
        and ?s3.0 = s3] m s3
    by simp
  show ?thesis using w d w1 m s3 c3 by blast
qed

text \<open>The scripts \<open>5 = 3\<close> and \<open>1\<close>, and the configuration with recovery disabled.\<close>

definition invalidScript :: "stmt list" where
  "invalidScript =
     [ExpressionStatement
        (AssignmentExpression (NumberLiteral (js ''5'')) ASSIGN (NumberLiteral (js ''3'')))]"

definition oneScript :: "stmt list" where
  "oneScript = [ExpressionStatement (NumberLiteral (js ''1''))]"

definition noRecovery :: ErrorHandlerConfig where
  "noRecovery = DEFAULT_ERROR_CONFIG\<lparr>enableRecovery := False\<rparr>"

lemma executeScript_returns:
  "interpretTree tree (initialState c cfg rnd) = (Returned r, s')
   \<Longrightarrow> executeScript False tree c cfg rnd =
       \<lparr>resultText = r, errorMessages = map getFormattedMessage (errors (errorHandler s')),
        warningMessages = warnings (errorHandler s'),
        success = (errors (errorHandler s') = [])\<rparr>"
  by (simp add: executeScript_def Let_def)

lemma executeScript_throws:
  "interpretTree tree (initialState c cfg rnd) = (Thrown x, s')
   \<Longrightarrow> executeScript False tree c cfg rnd =
       \<lparr>resultText = Str [], errorMessages = [exnMessage x], warningMessages = [],
        success = False\<rparr>"
  by (simp add: executeScript_def)

lemma thrown_is_abrupt:
  assumes "0 \<le> maxErrors cfg" and "interpretTree tree (initialState c cfg rnd) = (Thrown x, s')"
  shows "(\<exists>m. x = JsError m)
         \<or> (x = DicenicErr (tooManyErrors (length (errors (errorHandler s'))))
            \<and> maxErrors cfg < int (length (errors (errorHandler s'))))
         \<or> (\<exists>e. x = DicenicErr e \<and> enableRecovery cfg = False
                \<and> errors (errorHandler s') \<noteq> [] \<and> last (errors (errorHandler s')) = e
                \<and> isRecoverable (detail e))"
proof -
  have e: "effectOk (initialState c cfg rnd) (Thrown x :: payload outcome) s'"
    by (rule soundD [OF sound_interpretTree initial_withinCeiling [OF assms(1)] assms(2)])
  then have c: "config (errorHandler s') = cfg" and a: "abrupt (errorHandler s') x"
    by (simp_all add: effectOk_def initial_config)
  show ?thesis
    using a c by (cases x) (auto simp add: abrupt_def)
qed

lemma invalidScript_run:
  "interpretTree invalidScript (initialState emptyContext DEFAULT_ERROR_CONFIG (\<lambda>_. 0)) =
     (Thrown invalidLeftHandSide, initialState emptyContext DEFAULT_ERROR_CONFIG (\<lambda>_. 0))"
  by (simp add: invalidScript_def run_defs literal_simps performAssignment_def finalValueOf_def
      storeFinalValue_def)

lemma noRecovery_run:
  "interpretTree [deniedWrite] (initialState emptyContext noRecovery (\<lambda>_. 0)) =
     (Thrown (DicenicErr (writeError (js ''$rname''))),
      (initialState emptyContext noRecovery (\<lambda>_. 0))
        \<lparr>errorHandler := (newErrorHandler noRecovery)
           \<lparr>errors := [writeError (js ''$rname'')]\<rparr>\<rparr>)"
  by (simp add: interpretTree_def visitProgram_def andThen_apply setLastValue_def
      deniedWrite_step initialState_def newErrorHandler_def noRecovery_def
      DEFAULT_ERROR_CONFIG_def)

theorem abrupt_failure_counterexample:
  "enableRecovery DEFAULT_ERROR_CONFIG
   \<and> interpretTree invalidScript (initialState emptyContext DEFAULT_ERROR_CONFIG (\<lambda>_. 0)) =
       (Thrown invalidLeftHandSide, initialState emptyContext DEFAULT_ERROR_CONFIG (\<lambda>_. 0))
   \<and> errors (errorHandler (initialState emptyContext DEFAULT_ERROR_CONFIG (\<lambda>_. 0))) = []
   \<and> executeScript False invalidScript emptyContext DEFAULT_ERROR_CONFIG (\<lambda>_. 0) =
       \<lparr>resultText = Str [], errorMessages = [js ''Invalid left-hand side in assignment''],
        warningMessages = [], success = False\<rparr>
   \<and> enableRecovery noRecovery = False
   \<and> executeScript False oneScript emptyContext noRecovery (\<lambda>_. 0) =
       \<lparr>resultText = Str (js ''1''), errorMessages = [], warningMessages = [],
        success = True\<rparr>"
proof -
  have a: "enableRecovery DEFAULT_ERROR_CONFIG" "enableRecovery noRecovery = False"
    by (simp_all add: DEFAULT_ERROR_CONFIG_def noRecovery_def)
  have b: "errors (errorHandler (initialState emptyContext DEFAULT_ERROR_CONFIG (\<lambda>_. 0))) = []"
    by (simp add: initialState_def newErrorHandler_def)
  have c: "executeScript False invalidScript emptyContext DEFAULT_ERROR_CONFIG (\<lambda>_. 0) =
       \<lparr>resultText = Str [], errorMessages = [js ''Invalid left-hand side in assignment''],
        warningMessages = [], success = False\<rparr>"
    using executeScript_throws [OF invalidScript_run] by (simp add: invalidLeftHandSide_def)
  have d: "executeScript False oneScript emptyContext noRecovery (\<lambda>_. 0) =
       \<lparr>resultText = Str (js ''1''), errorMessages = [], warningMessages = [],
        success = True\<rparr>"
    by (simp add: oneScript_def run_defs literal_simps toString_simps)
  show ?thesis using a b c d invalidScript_run by blast
qed

text \<open>
  C5. \<open>executeScript\<close> always returns a record. On a syntax error it is the fixed failure
  record. When the interpreter returns, the record holds the result, the recorded errors,
  formatted, and the warnings, and \<open>success\<close> says that no error was recorded. When the
  interpreter throws, the exception is caught and the record is the failure record with
  the exception's message as its only error; the exception is then of one of three kinds:
  a plain error of the interpreter itself (an invalid assignment target, the missing
  method of a zero divisor), thrown whatever the configuration; the Runtime error of the
  ceiling, the recorded errors having become more than \<open>maxErrors\<close>; or the VariableAccess
  or Dice error just recorded, recovery being disabled.
\<close>

theorem abrupt_failure_modes:
  "executeScript True tree c cfg rnd =
     \<lparr>resultText = Str [], errorMessages = [js ''Syntax error in script''],
      warningMessages = [], success = False\<rparr>
   \<and> (interpretTree tree (initialState c cfg rnd) = (Returned r, s')
      \<longrightarrow> executeScript False tree c cfg rnd =
            \<lparr>resultText = r,
             errorMessages = map getFormattedMessage (errors (errorHandler s')),
             warningMessages = warnings (errorHandler s'),
             success = (errors (errorHandler s') = [])\<rparr>)
   \<and> (0 \<le> maxErrors cfg \<and> interpretTree tree (initialState c cfg rnd) = (Thrown x, s')
      \<longrightarrow> executeScript False tree c cfg rnd =
            \<lparr>resultText = Str [], errorMessages = [exnMessage x], warningMessages = [],
             success = False\<rparr>
          \<and> ((\<exists>m. x = JsError m)
             \<or> (x = DicenicErr (tooManyErrors (length (errors (errorHandler s'))))
                \<and> maxErrors cfg < int (length (errors (errorHandler s'))))
             \<or> (\<exists>e. x = DicenicErr e \<and> enableRecovery cfg = False
                    \<and> errors (errorHandler s') \<noteq> [] \<and> last (errors (errorHandler s')) = e
                    \<and> isRecoverable (detail e))))"
proof -
  have a: "executeScript True tree c cfg rnd =
     \<lparr>resultText = Str [], errorMessages = [js ''Syntax error in script''],
      warningMessages = [], success = False\<rparr>"
    by (simp add: executeScript_def)
  show ?thesis
    using a executeScript_returns [of tree c cfg rnd r s']
      executeScript_throws [of tree c cfg rnd x s'] thrown_is_abrupt [of cfg tree c rnd x s']
    by blast
qed

theorem abrupt_failure_modes_witness:
  "0 \<le> maxErrors DEFAULT_ERROR_CONFIG
   \<and> interpretTree invalidScript (initialState emptyContext DEFAULT_ERROR_CONFIG (\<lambda>_. 0)) =
       (Thrown invalidLeftHandSide, initialState emptyContext DEFAULT_ERROR_CONFIG (\<lambda>_. 0))
   \<and> executeScript False invalidScript emptyContext DEFAULT_ERROR_CONFIG (\<lambda>_. 0) =
       \<lparr>resultText = Str [], errorMessages = [exnMessage invalidLeftHandSide],
        warningMessages = [], success = False\<rparr>
   \<and> 0 \<le> maxErrors noRecovery
   \<and> interpretTree [deniedWrite] (initialState emptyContext noRecovery (\<lambda>_. 0)) =
       (Thrown (DicenicErr (writeError (js ''$rname''))),
        (initialState emptyContext noRecovery (\<lambda>_. 0))
          \<lparr>errorHandler := (newErrorHandler noRecovery)
             \<lparr>errors := [writeError (js ''$rname'')]\<rparr>\<rparr>)
   \<and> executeScript False [deniedWrite] emptyContext noRecovery (\<lambda>_. 0) =
       \<lparr>resultText = Str [], errorMessages = [message (writeError (js ''$rname''))],
        warningMessages = [], success = False\<rparr>
   \<and> (\<exists>s3. interpretTree deniedWritesScript
              (initialState emptyContext DEFAULT_ERROR_CONFIG (\<lambda>_. 0)) =
            (Thrown (DicenicErr (tooManyErrors 11)), s3)
          \<and> executeScript False deniedWritesScript emptyContext DEFAULT_ERROR_CONFIG (\<lambda>_. 0) =
              \<lparr>resultText = Str [], errorMessages = [message (tooManyErrors 11)],
               warningMessages = [], success = False\<rparr>)"
proof -
  have m: "0 \<le> maxErrors DEFAULT_ERROR_CONFIG" "0 \<le> maxErrors noRecovery"
    by (simp_all add: DEFAULT_ERROR_CONFIG_def noRecovery_def)
  have a: "executeScript False invalidScript emptyContext DEFAULT_ERROR_CONFIG (\<lambda>_. 0) =
       \<lparr>resultText = Str [], errorMessages = [exnMessage invalidLeftHandSide],
        warningMessages = [], success = False\<rparr>"
    using abrupt_failure_modes [where tree = invalidScript and c = emptyContext
        and cfg = DEFAULT_ERROR_CONFIG and rnd = "\<lambda>_. 0" and x = invalidLeftHandSide
        and s' = "initialState emptyContext DEFAULT_ERROR_CONFIG (\<lambda>_. 0)"]
      m(1) invalidScript_run
    by blast
  have b: "executeScript False [deniedWrite] emptyContext noRecovery (\<lambda>_. 0) =
       \<lparr>resultText = Str [], errorMessages = [message (writeError (js ''$rname''))],
        warningMessages = [], success = False\<rparr>"
    using abrupt_failure_modes [where tree = "[deniedWrite]" and c = emptyContext
        and cfg = noRecovery and rnd = "\<lambda>_. 0"
        and x = "DicenicErr (writeError (js ''$rname''))"
        and s' = "(initialState emptyContext noRecovery (\<lambda>_. 0))
          \<lparr>errorHandler := (newErrorHandler noRecovery)
             \<lparr>errors := [writeError (js ''$rname'')]\<rparr>\<rparr>"]
      m(2) noRecovery_run
    by simp
  obtain s3 where s3: "interpretTree deniedWritesScript
              (initialState emptyContext DEFAULT_ERROR_CONFIG (\<lambda>_. 0)) =
            (Thrown (DicenicErr (tooManyErrors 11)), s3)"
    using deniedWrites_run by blast
  have c: "executeScript False deniedWritesScript emptyContext DEFAULT_ERROR_CONFIG (\<lambda>_. 0) =
              \<lparr>resultText = Str [], errorMessages = [message (tooManyErrors 11)],
               warningMessages = [], success = False\<rparr>"
    using abrupt_failure_modes [where tree = deniedWritesScript and c = emptyContext
        and cfg = DEFAULT_ERROR_CONFIG and rnd = "\<lambda>_. 0"
        and x = "DicenicErr (tooManyErrors 11)" and s' = s3] m(1) s3
    by simp
  show ?thesis using m a b c s3 invalidScript_run noRecovery_run by blast
qed

end
